theory Spec2Isabelle
  imports Main "HOL-Library.Log_Nat"
begin

section \<open>JavaScript values used by the page objects and helpers\<close>

text \<open>
  A JavaScript \<^verbatim>\<open>number\<close> is an IEEE double: a finite value, one of the two
  infinities, or NaN. A finite double is a rational number, so a finite value is kept as a
  \<^typ>\<open>rat\<close>; the two zeros are identified (no function modelled here tells them apart).
  Comparison of doubles is exact, so the relational operators are the ones of the
  rationals, extended to the infinities, and false whenever an operand is NaN.
\<close>

datatype number = NaN | PosInf | NegInf | Fin rat

text \<open>\<^verbatim>\<open>a < b\<close>\<close>

fun js_lt :: "number \<Rightarrow> number \<Rightarrow> bool" where
  "js_lt NaN _ = False"
| "js_lt _ NaN = False"
| "js_lt (Fin a) (Fin b) = (a < b)"
| "js_lt (Fin _) PosInf = True"
| "js_lt (Fin _) NegInf = False"
| "js_lt PosInf _ = False"
| "js_lt NegInf NegInf = False"
| "js_lt NegInf _ = True"

text \<open>\<^verbatim>\<open>a > b\<close> is \<^verbatim>\<open>b < a\<close>.\<close>

definition js_gt :: "number \<Rightarrow> number \<Rightarrow> bool" where
  "js_gt a b = js_lt b a"

text \<open>\<^verbatim>\<open>a <= b\<close>: false on NaN, otherwise the negation of \<^verbatim>\<open>b < a\<close>.\<close>

definition js_le :: "number \<Rightarrow> number \<Rightarrow> bool" where
  "js_le a b = (a \<noteq> NaN \<and> b \<noteq> NaN \<and> \<not> js_lt b a)"

text \<open>\<^verbatim>\<open>a >= b\<close>\<close>

definition js_ge :: "number \<Rightarrow> number \<Rightarrow> bool" where
  "js_ge a b = (a \<noteq> NaN \<and> b \<noteq> NaN \<and> \<not> js_lt a b)"

section \<open>helpers.ts: sortedness checks\<close>

text \<open>
  \<^verbatim>\<open>
  export function isSortedAscending(arr: number[]): boolean {
    for (let i = 0; i < arr.length - 1; i++) {
      if (arr[i] > arr[i + 1]) {
        return false;
      }
    }
    return true;
  }
  \<close>
  The loop is a recursion on the index \<open>i\<close>. The bound \<^verbatim>\<open>arr.length - 1\<close> is \<open>-1\<close> for the
  empty array, so the comparison is made on integers. Inside the loop both reads are in
  range.
\<close>

function isSortedAscending_from :: "number list \<Rightarrow> nat \<Rightarrow> bool" where
  "isSortedAscending_from arr i =
     (if int i < int (length arr) - 1
      then (if js_gt (arr ! i) (arr ! (i + 1)) then False
            else isSortedAscending_from arr (i + 1))
      else True)"
  by pat_completeness auto
termination
  by (relation "measure (\<lambda>(arr, i). length arr - i)") auto

definition isSortedAscending :: "number list \<Rightarrow> bool" where
  "isSortedAscending arr = isSortedAscending_from arr 0"

text \<open>
  \<^verbatim>\<open>
  export function isSortedDescending(arr: number[]): boolean {
    for (let i = 0; i < arr.length - 1; i++) {
      if (arr[i] < arr[i + 1]) {
        return false;
      }
    }
    return true;
  }
  \<close>
\<close>

function isSortedDescending_from :: "number list \<Rightarrow> nat \<Rightarrow> bool" where
  "isSortedDescending_from arr i =
     (if int i < int (length arr) - 1
      then (if js_lt (arr ! i) (arr ! (i + 1)) then False
            else isSortedDescending_from arr (i + 1))
      else True)"
  by pat_completeness auto
termination
  by (relation "measure (\<lambda>(arr, i). length arr - i)") auto

definition isSortedDescending :: "number list \<Rightarrow> bool" where
  "isSortedDescending arr = isSortedDescending_from arr 0"

text \<open>
  The property the sortedness checks are compared with: a relation holds between every
  element and its successor.
\<close>

fun adjacent_pairs :: "(number \<Rightarrow> number \<Rightarrow> bool) \<Rightarrow> number list \<Rightarrow> bool" where
  "adjacent_pairs R [] = True"
| "adjacent_pairs R [x] = True"
| "adjacent_pairs R (x # y # ys) = (R x y \<and> adjacent_pairs R (y # ys))"

section \<open>Strings and the built-in conversions between strings and numbers\<close>

text \<open>
  A JavaScript string is a sequence of code units. The texts read here are modelled as
  \<^typ>\<open>string\<close>, a list of \<^typ>\<open>char\<close>, each char standing for the code unit of the
  same value (so the model covers the code units below 256). Among them the white space
  and line terminators that \<^verbatim>\<open>trim\<close>, \<^verbatim>\<open>parseFloat\<close> and \<^verbatim>\<open>parseInt\<close> strip are
  TAB, LF, VT, FF, CR, SPACE and NBSP.
\<close>

definition is_ws :: "char \<Rightarrow> bool" where
  "is_ws c = (c \<in> set [CHR 0x09, CHR 0x0A, CHR 0x0B, CHR 0x0C, CHR 0x0D, CHR 0x20, CHR 0xA0])"

text \<open>\<^verbatim>\<open>s.trim()\<close>\<close>

definition trim :: "string \<Rightarrow> string" where
  "trim s = rev (dropWhile is_ws (rev (dropWhile is_ws s)))"

text \<open>
  \<^verbatim>\<open>s.replace(pat, rep)\<close> for a string pattern \<open>pat\<close>: the first occurrence of \<open>pat\<close> in
  \<open>s\<close>, if there is one, is replaced by \<open>rep\<close> (the source only passes the replacement
  \<^verbatim>\<open>''\<close>, which holds no replacement pattern).
\<close>

fun js_replace :: "string \<Rightarrow> string \<Rightarrow> string \<Rightarrow> string" where
  "js_replace pat rep [] = (if pat = [] then rep else [])"
| "js_replace pat rep (c # cs) =
     (if take (length pat) (c # cs) = pat then rep @ drop (length pat) (c # cs)
      else c # js_replace pat rep cs)"

text \<open>\<^verbatim>\<open>text?.trim() || ''\<close> for a text that may be \<^verbatim>\<open>null\<close>.\<close>

definition trim_or_empty :: "string option \<Rightarrow> string" where
  "trim_or_empty text = (case text of None \<Rightarrow> [] | Some t \<Rightarrow> trim t)"

subsection \<open>Rounding to a double\<close>

definition pow2 :: "int \<Rightarrow> rat" where
  "pow2 e = (if 0 \<le> e then 2 ^ nat e else 1 / 2 ^ nat (- e))"

definition pow10 :: "int \<Rightarrow> rat" where
  "pow10 e = (if 0 \<le> e then 10 ^ nat e else 1 / 10 ^ nat (- e))"

text \<open>
  The binary exponent \<open>\<lfloor>log\<^sub>2 a\<rfloor>\<close> of a positive rational \<open>a = n / d\<close>: with \<open>k\<close> the
  difference of the bit lengths of \<open>n\<close> and \<open>d\<close>, \<open>a\<close> lies between \<open>2\<^sup>k\<^sup>-\<^sup>1\<close> and
  \<open>2\<^sup>k\<^sup>+\<^sup>1\<close>.
\<close>

definition ilog2 :: "rat \<Rightarrow> int" where
  "ilog2 a = (let (n, d) = quotient_of a; k = bitlen n - bitlen d
              in if pow2 k \<le> a then k else k - 1)"

definition round_half_even :: "rat \<Rightarrow> int" where
  "round_half_even q =
     (let f = \<lfloor>q\<rfloor>; r = q - of_int f
      in if r < 1 / 2 then f else if 1 / 2 < r then f + 1
         else if even f then f else f + 1)"

text \<open>
  The Number value of a rational: the nearest double, ties to the even significand; a
  significand has 53 bits, the least exponent of the last place is \<open>-1074\<close>, and what
  rounds to \<open>2\<^sup>1\<^sup>0\<^sup>2\<^sup>4\<close> or more is an infinity.
\<close>

definition round_double :: "rat \<Rightarrow> number" where
  "round_double q =
     (if q = 0 then Fin 0
      else let a = \<bar>q\<bar>;
               p = max (ilog2 a - 52) (- 1074);
               r = of_int (round_half_even (a / pow2 p)) * pow2 p
           in if pow2 1024 \<le> r then (if q < 0 then NegInf else PosInf)
              else Fin (if q < 0 then - r else r))"

text \<open>A rational is a double when rounding leaves it as it is.\<close>

definition is_double :: "rat \<Rightarrow> bool" where
  "is_double q = (round_double q = Fin q)"

subsection \<open>Arithmetic on numbers\<close>

text \<open>\<^verbatim>\<open>a + b\<close>: the exact sum, rounded.\<close>

fun js_add :: "number \<Rightarrow> number \<Rightarrow> number" where
  "js_add NaN _ = NaN"
| "js_add _ NaN = NaN"
| "js_add (Fin a) (Fin b) = round_double (a + b)"
| "js_add PosInf NegInf = NaN"
| "js_add NegInf PosInf = NaN"
| "js_add PosInf _ = PosInf"
| "js_add NegInf _ = NegInf"
| "js_add (Fin _) PosInf = PosInf"
| "js_add (Fin _) NegInf = NegInf"

text \<open>\<^verbatim>\<open>-a\<close>\<close>

fun js_neg :: "number \<Rightarrow> number" where
  "js_neg NaN = NaN"
| "js_neg PosInf = NegInf"
| "js_neg NegInf = PosInf"
| "js_neg (Fin a) = Fin (- a)"

text \<open>\<^verbatim>\<open>a - b\<close>: the exact difference, rounded.\<close>

definition js_sub :: "number \<Rightarrow> number \<Rightarrow> number" where
  "js_sub a b = js_add a (js_neg b)"

text \<open>\<^verbatim>\<open>Math.abs(a)\<close>\<close>

fun Math_abs :: "number \<Rightarrow> number" where
  "Math_abs NaN = NaN"
| "Math_abs PosInf = PosInf"
| "Math_abs NegInf = PosInf"
| "Math_abs (Fin a) = Fin \<bar>a\<bar>"

subsection \<open>Decimal digits\<close>

definition is_digit :: "char \<Rightarrow> bool" where
  "is_digit c = (48 \<le> (of_char c :: nat) \<and> (of_char c :: nat) \<le> 57)"

definition digit_value :: "char \<Rightarrow> int" where
  "digit_value c = of_char c - 48"

text \<open>The character of a digit \<open>d\<close> below ten.\<close>

definition digit_char :: "nat \<Rightarrow> char" where
  "digit_char d = ''0123456789'' ! d"

text \<open>The value of a string of decimal digits, most significant digit first.\<close>

definition digits_value :: "string \<Rightarrow> int" where
  "digits_value ds = foldl (\<lambda>n c. 10 * n + digit_value c) 0 ds"

text \<open>The decimal digits of a natural number, without leading zeros (\<open>0\<close> is \<^verbatim>\<open>"0"\<close>).\<close>

fun digits_of :: "nat \<Rightarrow> string" where
  "digits_of n = (if n < 10 then [digit_char n] else digits_of (n div 10) @ [digit_char (n mod 10)])"

subsection \<open>parseFloat and parseInt\<close>

text \<open>An optional sign: whether it is a minus, and the rest of the string.\<close>

definition read_sign :: "string \<Rightarrow> bool \<times> string" where
  "read_sign s =
     (case s of
        [] \<Rightarrow> (False, [])
      | c # cs \<Rightarrow> if c = CHR ''-'' then (True, cs) else if c = CHR ''+'' then (False, cs)
                  else (False, s))"

text \<open>
  The exponent part at the head of a string: \<^verbatim>\<open>e\<close> or \<^verbatim>\<open>E\<close>, an optional sign, and at
  least one digit. Where there is none the exponent is \<open>0\<close>.
\<close>

definition read_exponent :: "string \<Rightarrow> int" where
  "read_exponent s =
     (case s of
        [] \<Rightarrow> 0
      | c # cs \<Rightarrow>
          if c = CHR ''e'' \<or> c = CHR ''E''
          then (let (neg, r) = read_sign cs; ds = takeWhile is_digit r
                in if ds = [] then 0
                   else if neg then - digits_value ds else digits_value ds)
          else 0)"

text \<open>
  \<^verbatim>\<open>parseFloat(s)\<close>: leading white space is skipped, and the longest prefix of the rest that
  is a decimal literal (an optional sign, then \<^verbatim>\<open>Infinity\<close>, or digits with an optional
  fraction and exponent, or a fraction that starts with the point) is converted; NaN when
  no prefix is one.
\<close>

definition parseFloat :: "string \<Rightarrow> number" where
  "parseFloat s =
     (let (neg, u) = read_sign (dropWhile is_ws s)
      in if take 8 u = ''Infinity'' then (if neg then NegInf else PosInf)
         else
           let ip = takeWhile is_digit u;
               r1 = dropWhile is_digit u;
               has_point = (case r1 of [] \<Rightarrow> False | c # _ \<Rightarrow> c = CHR ''.'');
               fp = (if has_point then takeWhile is_digit (tl r1) else []);
               r2 = (if has_point then dropWhile is_digit (tl r1) else r1)
           in if ip = [] \<and> fp = [] then NaN
              else
                let v = (of_int (digits_value ip) + of_int (digits_value fp) / 10 ^ length fp)
                          * pow10 (read_exponent r2)
                in round_double (if neg then - v else v))"

text \<open>
  \<^verbatim>\<open>parseInt(s, 10)\<close>: leading white space is skipped, then an optional sign and the longest
  run of decimal digits is converted; NaN when there is no digit.
\<close>

definition parseInt_10 :: "string \<Rightarrow> number" where
  "parseInt_10 s =
     (let (neg, u) = read_sign (dropWhile is_ws s); z = takeWhile is_digit u
      in if z = [] then NaN
         else round_double (if neg then - of_int (digits_value z) else of_int (digits_value z)))"

subsection \<open>toFixed\<close>

text \<open>
  \<^verbatim>\<open>x.toFixed(f)\<close>. For a finite \<open>x\<close> below \<open>10\<^sup>2\<^sup>1\<close> in absolute value the digits are those
  of the integer \<open>n\<close> for which \<open>n / 10\<^sup>f\<close> is nearest to \<open>\<bar>x\<bar>\<close>, the larger \<open>n\<close> when two are
  equally near. From \<open>10\<^sup>2\<^sup>1\<close> on the result is the number's own string conversion, whose
  last digit the language leaves to the implementation; it is the parameter \<open>toString\<close>.
\<close>

definition toFixed :: "(rat \<Rightarrow> string) \<Rightarrow> number \<Rightarrow> nat \<Rightarrow> string" where
  "toFixed toString x f =
     (case x of
        NaN \<Rightarrow> ''NaN''
      | PosInf \<Rightarrow> ''Infinity''
      | NegInf \<Rightarrow> ''-Infinity''
      | Fin q \<Rightarrow>
          let s = (if q < 0 then ''-'' else ''''); a = \<bar>q\<bar>
          in if 10 ^ 21 \<le> a then s @ toString a
             else
               let n = nat \<lfloor>a * 10 ^ f + 1 / 2\<rfloor>;
                   m0 = digits_of n;
                   m = (if length m0 \<le> f then replicate (f + 1 - length m0) (CHR ''0'') @ m0 else m0);
                   k = length m
               in s @ (if f \<noteq> 0 then take (k - f) m @ ''.'' @ drop (k - f) m else m))"

section \<open>helpers.ts: currency helpers\<close>

text \<open>
  \<^verbatim>\<open>
  export function parsePriceToNumber(priceString: string): number {
    return parseFloat(priceString.replace('$', '').trim());
  }
  export function formatCurrency(amount: number): string {
    return `$${amount.toFixed(2)}`;
  }
  \<close>
\<close>

definition parsePriceToNumber :: "string \<Rightarrow> number" where
  "parsePriceToNumber priceString = parseFloat (trim (js_replace ''$'' '''' priceString))"

definition formatCurrency :: "(rat \<Rightarrow> string) \<Rightarrow> number \<Rightarrow> string" where
  "formatCurrency toString amount = ''$'' @ toFixed toString amount 2"

section \<open>The browser-automation engine\<close>

text \<open>
  The page objects reach the application only through calls into the engine. Every such
  call either returns or throws, so it is a function from the state of the browser
  session to a value of a sum type, with the thrown error on the left. The engine is not
  part of the repository: its calls are the fields of a record that every page-object
  method takes as its first argument, and nothing is assumed about what they answer.
  Reading calls leave the session state as it is; \<^verbatim>\<open>click\<close> and \<^verbatim>\<open>waitForTimeout\<close> return
  the state that follows.
\<close>

datatype error =
    Error string \<comment> \<open>\<^verbatim>\<open>throw new Error(message)\<close> in the repository's own code\<close>
  | EngineError string \<comment> \<open>thrown inside an engine call (time-out, closed page, ...)\<close>
  | TypeError string \<comment> \<open>thrown by the language itself (a property read on \<^verbatim>\<open>undefined\<close>)\<close>

datatype locator =
    Page_locator string \<comment> \<open>\<^verbatim>\<open>page.locator(selector)\<close>\<close>
  | Sub_locator locator string \<comment> \<open>\<^verbatim>\<open>parent.locator(selector)\<close>\<close>
  | Nth_locator locator nat \<comment> \<open>an element of \<^verbatim>\<open>parent.all()\<close>\<close>

record 's engine =
  locator_click :: "locator \<Rightarrow> 's \<Rightarrow> error + 's"
  locator_textContent :: "locator \<Rightarrow> 's \<Rightarrow> error + string option"
  locator_all :: "locator \<Rightarrow> 's \<Rightarrow> error + locator list"
  locator_count :: "locator \<Rightarrow> 's \<Rightarrow> error + nat"
  locator_isVisible :: "locator \<Rightarrow> 's \<Rightarrow> error + bool"
  locator_isEnabled :: "locator \<Rightarrow> 's \<Rightarrow> error + bool"
  locator_isDisabled :: "locator \<Rightarrow> 's \<Rightarrow> error + bool"
  locator_isChecked :: "locator \<Rightarrow> 's \<Rightarrow> error + bool"
  page_waitForTimeout :: "nat \<Rightarrow> 's \<Rightarrow> error + 's"

section \<open>BasePage.ts\<close>

text \<open>
  \<^verbatim>\<open>
  async clickElement(selector: string): Promise<void> {
    await this.page.locator(selector).click();
  }
  async getText(selector: string): Promise<string> {
    const text = await this.page.locator(selector).textContent();
    return text?.trim() || '';
  }
  async getElementCount(selector: string): Promise<number> {
    return await this.page.locator(selector).count();
  }
  async waitForTimeout(ms: number): Promise<void> {
    await this.page.waitForTimeout(ms);
  }
  \<close>
\<close>

definition clickElement :: "'s engine \<Rightarrow> string \<Rightarrow> 's \<Rightarrow> error + 's" where
  "clickElement E selector s = locator_click E (Page_locator selector) s"

definition getText :: "'s engine \<Rightarrow> string \<Rightarrow> 's \<Rightarrow> error + string" where
  "getText E selector s =
     (case locator_textContent E (Page_locator selector) s of
        Inl e \<Rightarrow> Inl e
      | Inr text \<Rightarrow> Inr (trim_or_empty text))"

definition getElementCount :: "'s engine \<Rightarrow> string \<Rightarrow> 's \<Rightarrow> error + nat" where
  "getElementCount E selector s = locator_count E (Page_locator selector) s"

definition waitForTimeout :: "'s engine \<Rightarrow> nat \<Rightarrow> 's \<Rightarrow> error + 's" where
  "waitForTimeout E ms s = page_waitForTimeout E ms s"

text \<open>
  The state-check methods. Four of them wrap the engine call in \<^verbatim>\<open>try\<close>/\<^verbatim>\<open>catch\<close>:
  \<^verbatim>\<open>
  async isElementVisible(selector: string): Promise<boolean> {
    try {
      return await this.page.locator(selector).isVisible();
    } catch {
      return false;
    }
  }
  \<close>
  and likewise \<^verbatim>\<open>isElementEnabled\<close>, \<^verbatim>\<open>isElementDisabled\<close> and \<^verbatim>\<open>isElementChecked\<close>.
  The fifth does not:
  \<^verbatim>\<open>
  async isElementPresent(selector: string): Promise<boolean> {
    const count = await this.page.locator(selector).count();
    return count > 0;
  }
  \<close>
\<close>

definition isElementVisible :: "'s engine \<Rightarrow> string \<Rightarrow> 's \<Rightarrow> error + bool" where
  "isElementVisible E selector s =
     (case locator_isVisible E (Page_locator selector) s of
        Inr b \<Rightarrow> Inr b
      | Inl _ \<Rightarrow> Inr False)"

definition isElementEnabled :: "'s engine \<Rightarrow> string \<Rightarrow> 's \<Rightarrow> error + bool" where
  "isElementEnabled E selector s =
     (case locator_isEnabled E (Page_locator selector) s of
        Inr b \<Rightarrow> Inr b
      | Inl _ \<Rightarrow> Inr False)"

definition isElementDisabled :: "'s engine \<Rightarrow> string \<Rightarrow> 's \<Rightarrow> error + bool" where
  "isElementDisabled E selector s =
     (case locator_isDisabled E (Page_locator selector) s of
        Inr b \<Rightarrow> Inr b
      | Inl _ \<Rightarrow> Inr False)"

definition isElementChecked :: "'s engine \<Rightarrow> string \<Rightarrow> 's \<Rightarrow> error + bool" where
  "isElementChecked E selector s =
     (case locator_isChecked E (Page_locator selector) s of
        Inr b \<Rightarrow> Inr b
      | Inl _ \<Rightarrow> Inr False)"

definition isElementPresent :: "'s engine \<Rightarrow> string \<Rightarrow> 's \<Rightarrow> error + bool" where
  "isElementPresent E selector s =
     (case locator_count E (Page_locator selector) s of
        Inl e \<Rightarrow> Inl e
      | Inr count \<Rightarrow> Inr (0 < count))"

section \<open>InventoryPage.ts\<close>

definition InventoryPage_productItems :: string where
  "InventoryPage_productItems = ''.inventory_item''"

definition InventoryPage_productName :: string where
  "InventoryPage_productName = ''.inventory_item_name''"

definition InventoryPage_cartBadge :: string where
  "InventoryPage_cartBadge = ''.shopping_cart_badge''"

text \<open>
  \<^verbatim>\<open>
  async addProductToCartByName(productName: string): Promise<void> {
    const products = await this.page.locator(this.productItems).all();

    for (const product of products) {
      const name = await product.locator(this.productName).textContent();
      if (name?.trim() === productName) {
        await product.locator('button[id^="add-to-cart"]').click();
        return;
      }
    }

    throw new Error(`Product "${productName}" not found`);
  }
  \<close>
  \<^verbatim>\<open>removeProductFromCartByName\<close> on this page and \<^verbatim>\<open>removeItemByName\<close> on the cart page
  are the same loop over other selectors, with another button and another message. The
  loop is written once, as a recursion on the array of item locators; its parameters are
  the selector of the title inside an item, the selector of the button, and the message.
  \<^verbatim>\<open>name?.trim() === productName\<close> is false for a \<^verbatim>\<open>null\<close> text.
\<close>

fun click_first_named ::
  "'s engine \<Rightarrow> string \<Rightarrow> string \<Rightarrow> string \<Rightarrow> string \<Rightarrow> locator list \<Rightarrow> 's \<Rightarrow> error + 's"
where
  "click_first_named E title button message productName [] s = Inl (Error message)"
| "click_first_named E title button message productName (item # items) s =
     (case locator_textContent E (Sub_locator item title) s of
        Inl e \<Rightarrow> Inl e
      | Inr name \<Rightarrow>
          if map_option trim name = Some productName
          then locator_click E (Sub_locator item button) s
          else click_first_named E title button message productName items s)"

definition addProductToCartByName :: "'s engine \<Rightarrow> string \<Rightarrow> 's \<Rightarrow> error + 's" where
  \<open>addProductToCartByName E productName s =
     (case locator_all E (Page_locator InventoryPage_productItems) s of
        Inl e \<Rightarrow> Inl e
      | Inr products \<Rightarrow>
          click_first_named E InventoryPage_productName ''button[id^="add-to-cart"]''
            (''Product "'' @ productName @ ''" not found'') productName products s)\<close>

definition removeProductFromCartByName :: "'s engine \<Rightarrow> string \<Rightarrow> 's \<Rightarrow> error + 's" where
  \<open>removeProductFromCartByName E productName s =
     (case locator_all E (Page_locator InventoryPage_productItems) s of
        Inl e \<Rightarrow> Inl e
      | Inr products \<Rightarrow>
          click_first_named E InventoryPage_productName ''button[id^="remove"]''
            (''Product "'' @ productName @ ''" not found for removal'') productName products s)\<close>

text \<open>
  \<^verbatim>\<open>
  async getCartItemCount(): Promise<number> {
    if (await this.isElementVisible(this.cartBadge)) {
      const badgeText = await this.getText(this.cartBadge);
      return parseInt(badgeText, 10);
    }
    return 0;
  }
  \<close>
\<close>

definition InventoryPage_getCartItemCount :: "'s engine \<Rightarrow> 's \<Rightarrow> error + number" where
  "InventoryPage_getCartItemCount E s =
     (case isElementVisible E InventoryPage_cartBadge s of
        Inl e \<Rightarrow> Inl e
      | Inr visible \<Rightarrow>
          if visible
          then (case getText E InventoryPage_cartBadge s of
                  Inl e \<Rightarrow> Inl e
                | Inr badgeText \<Rightarrow> Inr (parseInt_10 badgeText))
          else Inr (Fin 0))"

section \<open>CartPage.ts\<close>

definition CartPage_cartItems :: string where
  "CartPage_cartItems = ''.cart_item''"

definition CartPage_cartItemName :: string where
  "CartPage_cartItemName = ''.inventory_item_name''"

definition CartPage_cartQuantity :: string where
  "CartPage_cartQuantity = ''.cart_quantity''"

text \<open>
  \<^verbatim>\<open>
  async getCartItemCount(): Promise<number> {
    return await this.getElementCount(this.cartItems);
  }
  \<close>
\<close>

definition CartPage_getCartItemCount :: "'s engine \<Rightarrow> 's \<Rightarrow> error + nat" where
  "CartPage_getCartItemCount E s = getElementCount E CartPage_cartItems s"

text \<open>\<^verbatim>\<open>removeItemByName\<close>: the loop of \<^verbatim>\<open>addProductToCartByName\<close> over the cart lines.\<close>

definition removeItemByName :: "'s engine \<Rightarrow> string \<Rightarrow> 's \<Rightarrow> error + 's" where
  \<open>removeItemByName E productName s =
     (case locator_all E (Page_locator CartPage_cartItems) s of
        Inl e \<Rightarrow> Inl e
      | Inr items \<Rightarrow>
          click_first_named E CartPage_cartItemName ''button[id^="remove"]''
            (''Product "'' @ productName @ ''" not found in cart for removal'') productName items s)\<close>

text \<open>
  The string of a number inside a template literal, \<^verbatim>\<open>`${index}`\<close>. For an integer below
  \<open>2\<^sup>5\<^sup>3\<close> in absolute value it is the decimal digits of the integer, after a minus sign
  when it is negative (\<open>0\<close> is \<^verbatim>\<open>"0"\<close>). For every other finite number (a fraction, or a
  magnitude from \<open>2\<^sup>5\<^sup>3\<close> on, where the digits become the shortest ones that denote the
  double and, from \<open>10\<^sup>2\<^sup>1\<close> on, take an exponent) the digits are those of the number's own
  string conversion, whose last digit the language leaves to the implementation; as in
  \<^verbatim>\<open>toFixed\<close> it is the parameter \<open>toString\<close>, applied to the absolute value.
\<close>

definition Number_toString :: "(rat \<Rightarrow> string) \<Rightarrow> number \<Rightarrow> string" where
  "Number_toString toString x =
     (case x of
        NaN \<Rightarrow> ''NaN''
      | PosInf \<Rightarrow> ''Infinity''
      | NegInf \<Rightarrow> ''-Infinity''
      | Fin q \<Rightarrow>
          (if q < 0 then ''-'' else []) @
          (if of_int \<lfloor>\<bar>q\<bar>\<rfloor> = \<bar>q\<bar> \<and> \<bar>q\<bar> < 2 ^ 53 then digits_of (nat \<lfloor>\<bar>q\<bar>\<rfloor>)
           else toString \<bar>q\<bar>))"

text \<open>
  \<^verbatim>\<open>
  async removeItemByIndex(index: number): Promise<void> {
    const items = await this.page.locator(this.cartItems).all();
    if (index >= 0 && index < items.length) {
      await items[index].locator('button[id^="remove"]').click();
    } else {
      throw new Error(`Cart item index ${index} is out of range`);
    }
  }
  \<close>
  The index is any number. Inside the range \<^verbatim>\<open>items[index]\<close> is an element of the array
  when the index is an integer; for a fraction it is \<^verbatim>\<open>undefined\<close>, and the call of
  \<^verbatim>\<open>locator\<close> on it throws a \<^verbatim>\<open>TypeError\<close>. NaN and the infinities fail the test of the
  range.
\<close>

definition removeItemByIndex ::
  "(rat \<Rightarrow> string) \<Rightarrow> 's engine \<Rightarrow> number \<Rightarrow> 's \<Rightarrow> error + 's"
where
  \<open>removeItemByIndex toString E index s =
     (case locator_all E (Page_locator CartPage_cartItems) s of
        Inl e \<Rightarrow> Inl e
      | Inr items \<Rightarrow>
          if js_ge index (Fin 0) \<and> js_lt index (Fin (of_nat (length items)))
          then (case index of
                  Fin q \<Rightarrow>
                    if of_int \<lfloor>q\<rfloor> = q
                    then locator_click E (Sub_locator (items ! nat \<lfloor>q\<rfloor>) ''button[id^="remove"]'') s
                    else Inl (TypeError ''Cannot read properties of undefined (reading 'locator')'')
                | _ \<Rightarrow> Inl (TypeError ''Cannot read properties of undefined (reading 'locator')''))
          else Inl (Error (''Cart item index '' @ Number_toString toString index @ '' is out of range'')))\<close>

text \<open>
  \<^verbatim>\<open>
  async removeAllItems(): Promise<void> {
    let itemCount = await this.getCartItemCount();

    while (itemCount > 0) {
      await this.removeItemByIndex(0);
      await this.waitForTimeout(300); // Wait for removal animation
      itemCount = await this.getCartItemCount();
    }
  }
  \<close>
  Nothing in the code bounds the number of iterations, so the loop is a partial function:
  \<open>None\<close> is a run that never returns.
\<close>

partial_function (option) removeAllItems_loop ::
  "(rat \<Rightarrow> string) \<Rightarrow> 's engine \<Rightarrow> nat \<Rightarrow> 's \<Rightarrow> (error + 's) option"
where
  "removeAllItems_loop toString E itemCount s =
     (if 0 < itemCount
      then (case removeItemByIndex toString E (Fin 0) s of
              Inl e \<Rightarrow> Some (Inl e)
            | Inr s1 \<Rightarrow>
                (case waitForTimeout E 300 s1 of
                   Inl e \<Rightarrow> Some (Inl e)
                 | Inr s2 \<Rightarrow>
                     (case CartPage_getCartItemCount E s2 of
                        Inl e \<Rightarrow> Some (Inl e)
                      | Inr n \<Rightarrow> removeAllItems_loop toString E n s2)))
      else Some (Inr s))"

definition removeAllItems :: "(rat \<Rightarrow> string) \<Rightarrow> 's engine \<Rightarrow> 's \<Rightarrow> (error + 's) option" where
  "removeAllItems toString E s =
     (case CartPage_getCartItemCount E s of
        Inl e \<Rightarrow> Some (Inl e)
      | Inr itemCount \<Rightarrow> removeAllItems_loop toString E itemCount s)"

text \<open>
  \<^verbatim>\<open>
  async getItemQuantity(productName: string): Promise<number> {
    const items = await this.page.locator(this.cartItems).all();

    for (const item of items) {
      const name = await item.locator(this.cartItemName).textContent();
      if (name?.trim() === productName) {
        const quantityText = await item.locator(this.cartQuantity).textContent();
        return parseInt(quantityText?.trim() || '0', 10);
      }
    }

    return 0;
  }
  \<close>
  \<^verbatim>\<open>quantityText?.trim() || '0'\<close> is \<^verbatim>\<open>'0'\<close> for a \<^verbatim>\<open>null\<close> text and for a text that is
  empty once trimmed.
\<close>

definition trim_or_zero :: "string option \<Rightarrow> string" where
  "trim_or_zero text =
     (case text of
        None \<Rightarrow> ''0''
      | Some t \<Rightarrow> if trim t = [] then ''0'' else trim t)"

fun getItemQuantity_loop :: "'s engine \<Rightarrow> string \<Rightarrow> locator list \<Rightarrow> 's \<Rightarrow> error + number" where
  "getItemQuantity_loop E productName [] s = Inr (Fin 0)"
| "getItemQuantity_loop E productName (item # items) s =
     (case locator_textContent E (Sub_locator item CartPage_cartItemName) s of
        Inl e \<Rightarrow> Inl e
      | Inr name \<Rightarrow>
          if map_option trim name = Some productName
          then (case locator_textContent E (Sub_locator item CartPage_cartQuantity) s of
                  Inl e \<Rightarrow> Inl e
                | Inr quantityText \<Rightarrow> Inr (parseInt_10 (trim_or_zero quantityText)))
          else getItemQuantity_loop E productName items s)"

definition getItemQuantity :: "'s engine \<Rightarrow> string \<Rightarrow> 's \<Rightarrow> error + number" where
  "getItemQuantity E productName s =
     (case locator_all E (Page_locator CartPage_cartItems) s of
        Inl e \<Rightarrow> Inl e
      | Inr items \<Rightarrow> getItemQuantity_loop E productName items s)"

section \<open>LoginPage.ts and CheckoutStepOnePage.ts\<close>

text \<open>
  Both classes declare the selector \<^verbatim>\<open>errorMessage = '[data-test="error"]'\<close> and the
  same method:
  \<^verbatim>\<open>
  async getErrorMessage(): Promise<string> {
    if (await this.isElementVisible(this.errorMessage)) {
      return await this.getText(this.errorMessage);
    }
    return '';
  }
  \<close>
\<close>

definition LoginPage_errorMessage :: string where
  \<open>LoginPage_errorMessage = ''[data-test="error"]''\<close>

definition CheckoutStepOnePage_errorMessage :: string where
  \<open>CheckoutStepOnePage_errorMessage = ''[data-test="error"]''\<close>

definition LoginPage_getErrorMessage :: "'s engine \<Rightarrow> 's \<Rightarrow> error + string" where
  "LoginPage_getErrorMessage E s =
     (case isElementVisible E LoginPage_errorMessage s of
        Inl e \<Rightarrow> Inl e
      | Inr visible \<Rightarrow> if visible then getText E LoginPage_errorMessage s else Inr [])"

definition CheckoutStepOnePage_getErrorMessage :: "'s engine \<Rightarrow> 's \<Rightarrow> error + string" where
  "CheckoutStepOnePage_getErrorMessage E s =
     (case isElementVisible E CheckoutStepOnePage_errorMessage s of
        Inl e \<Rightarrow> Inl e
      | Inr visible \<Rightarrow> if visible then getText E CheckoutStepOnePage_errorMessage s else Inr [])"

section \<open>CheckoutStepTwoPage.ts\<close>

definition CheckoutStepTwoPage_itemTotal :: string where
  "CheckoutStepTwoPage_itemTotal = ''.summary_subtotal_label''"

definition CheckoutStepTwoPage_tax :: string where
  "CheckoutStepTwoPage_tax = ''.summary_tax_label''"

definition CheckoutStepTwoPage_total :: string where
  "CheckoutStepTwoPage_total = ''.summary_total_label''"

text \<open>
  \<^verbatim>\<open>
  async getItemTotal(): Promise<string> {
    const text = await this.getText(this.itemTotal);
    // Extract price from "Item total: $XX.XX"
    return text.replace('Item total: ', '').trim();
  }
  async getTax(): Promise<string> {
    const text = await this.getText(this.tax);
    return text.replace('Tax: ', '').trim();
  }
  async getTotal(): Promise<string> {
    const text = await this.getText(this.total);
    return text.replace('Total: ', '').trim();
  }
  \<close>
\<close>

definition getItemTotal :: "'s engine \<Rightarrow> 's \<Rightarrow> error + string" where
  "getItemTotal E s =
     (case getText E CheckoutStepTwoPage_itemTotal s of
        Inl e \<Rightarrow> Inl e
      | Inr text \<Rightarrow> Inr (trim (js_replace ''Item total: '' '''' text)))"

definition getTax :: "'s engine \<Rightarrow> 's \<Rightarrow> error + string" where
  "getTax E s =
     (case getText E CheckoutStepTwoPage_tax s of
        Inl e \<Rightarrow> Inl e
      | Inr text \<Rightarrow> Inr (trim (js_replace ''Tax: '' '''' text)))"

definition getTotal :: "'s engine \<Rightarrow> 's \<Rightarrow> error + string" where
  "getTotal E s =
     (case getText E CheckoutStepTwoPage_total s of
        Inl e \<Rightarrow> Inl e
      | Inr text \<Rightarrow> Inr (trim (js_replace ''Total: '' '''' text)))"

text \<open>
  \<^verbatim>\<open>
  async getItemTotalAsNumber(): Promise<number> {
    const totalString = await this.getItemTotal();
    return parseFloat(totalString.replace('$', ''));
  }
  \<close>
  and the same for \<^verbatim>\<open>getTaxAsNumber\<close> over \<^verbatim>\<open>getTax\<close> and \<^verbatim>\<open>getTotalAsNumber\<close> over
  \<^verbatim>\<open>getTotal\<close>.
\<close>

definition getItemTotalAsNumber :: "'s engine \<Rightarrow> 's \<Rightarrow> error + number" where
  "getItemTotalAsNumber E s =
     (case getItemTotal E s of
        Inl e \<Rightarrow> Inl e
      | Inr totalString \<Rightarrow> Inr (parseFloat (js_replace ''$'' '''' totalString)))"

definition getTaxAsNumber :: "'s engine \<Rightarrow> 's \<Rightarrow> error + number" where
  "getTaxAsNumber E s =
     (case getTax E s of
        Inl e \<Rightarrow> Inl e
      | Inr taxString \<Rightarrow> Inr (parseFloat (js_replace ''$'' '''' taxString)))"

definition getTotalAsNumber :: "'s engine \<Rightarrow> 's \<Rightarrow> error + number" where
  "getTotalAsNumber E s =
     (case getTotal E s of
        Inl e \<Rightarrow> Inl e
      | Inr totalString \<Rightarrow> Inr (parseFloat (js_replace ''$'' '''' totalString)))"

text \<open>
  \<^verbatim>\<open>
  async verifyTotalCalculation(): Promise<boolean> {
    const itemTotal = await this.getItemTotalAsNumber();
    const tax = await this.getTaxAsNumber();
    const total = await this.getTotalAsNumber();

    const expectedTotal = itemTotal + tax;
    // Allow small floating point difference
    return Math.abs(total - expectedTotal) < 0.01;
  }
  \<close>
  The literal \<^verbatim>\<open>0.01\<close> is the double nearest to \<open>1/100\<close>; the variable \<^verbatim>\<open>total\<close> is
  written \<open>total'\<close>.
\<close>

definition verifyTotalCalculation :: "'s engine \<Rightarrow> 's \<Rightarrow> error + bool" where
  "verifyTotalCalculation E s =
     (case getItemTotalAsNumber E s of
        Inl e \<Rightarrow> Inl e
      | Inr itemTotal \<Rightarrow>
          (case getTaxAsNumber E s of
             Inl e \<Rightarrow> Inl e
           | Inr tax \<Rightarrow>
               (case getTotalAsNumber E s of
                  Inl e \<Rightarrow> Inl e
                | Inr total' \<Rightarrow>
                    let expectedTotal = js_add itemTotal tax
                    in Inr (js_lt (Math_abs (js_sub total' expectedTotal))
                              (round_double (1 / 100))))))"

section \<open>Looking an item up by its name: what the loops are compared with\<close>

text \<open>
  For an item of a listing, a title selector and a name: whether the title of the item is
  read and, trimmed, equals the name; and whether the title is read and does not.
\<close>

definition title_matches :: "'s engine \<Rightarrow> string \<Rightarrow> string \<Rightarrow> 's \<Rightarrow> locator \<Rightarrow> bool" where
  "title_matches E title productName s item =
     (case locator_textContent E (Sub_locator item title) s of
        Inr (Some t) \<Rightarrow> trim t = productName
      | _ \<Rightarrow> False)"

definition title_differs :: "'s engine \<Rightarrow> string \<Rightarrow> string \<Rightarrow> 's \<Rightarrow> locator \<Rightarrow> bool" where
  "title_differs E title productName s item =
     (case locator_textContent E (Sub_locator item title) s of
        Inr t \<Rightarrow> map_option trim t \<noteq> Some productName
      | Inl _ \<Rightarrow> False)"

text \<open>Item \<open>i\<close> is the first of the listing whose title matches the name.\<close>

definition first_match ::
  "'s engine \<Rightarrow> string \<Rightarrow> string \<Rightarrow> 's \<Rightarrow> locator list \<Rightarrow> nat \<Rightarrow> bool"
where
  "first_match E title productName s items i =
     (i < length items \<and> title_matches E title productName s (items ! i) \<and>
      list_all (title_differs E title productName s) (take i items))"

section \<open>Emptying the cart: what the loop is compared with\<close>

text \<open>
  \<open>k\<close> rounds of removing the cart line at index 0 and then waiting 300 ms, written as the
  calls that reach the engine: in each round the cart lines are listed with \<^verbatim>\<open>all()\<close>, the
  remove button inside the first of them is clicked, and \<^verbatim>\<open>page.waitForTimeout(300)\<close> is
  called. The rounds stop at the first call that throws, and where no line is listed.
\<close>

fun remove_and_wait :: "'s engine \<Rightarrow> nat \<Rightarrow> 's \<Rightarrow> error + 's" where
  \<open>remove_and_wait E 0 s = Inr s\<close>
| \<open>remove_and_wait E (Suc k) s =
     (case locator_all E (Page_locator ''.cart_item'') s of
        Inl e \<Rightarrow> Inl e
      | Inr [] \<Rightarrow> Inl (Error ''Cart item index 0 is out of range'')
      | Inr (item # _) \<Rightarrow>
          (case locator_click E (Sub_locator item ''button[id^="remove"]'') s of
             Inl e \<Rightarrow> Inl e
           | Inr s1 \<Rightarrow>
               (case page_waitForTimeout E 300 s1 of
                  Inl e \<Rightarrow> Inl e
                | Inr s2 \<Rightarrow> remove_and_wait E k s2)))\<close>

section \<open>The order summary: what verifyTotalCalculation is compared with\<close>

text \<open>
  The number that claim C1 describes for a summary line with a given label: the trimmed
  text of the element, without the label when the text starts with it, without a dollar
  sign when the rest starts with one, parsed as a decimal number.
\<close>

definition strip_prefix :: "string \<Rightarrow> string \<Rightarrow> string" where
  "strip_prefix label s = (if take (length label) s = label then drop (length label) s else s)"

definition amount_as_stated :: "string \<Rightarrow> string option \<Rightarrow> number" where
  "amount_as_stated label text =
     parseFloat (strip_prefix ''$'' (strip_prefix label (trim_or_empty text)))"

text \<open>
  The number that the page object computes for such a line: from the trimmed text the
  first occurrence of the label is deleted, wherever it is; the result is trimmed; the
  first dollar sign is deleted, wherever it is; and \<^verbatim>\<open>parseFloat\<close> reads the longest
  numeral at the head of what is left, or NaN.
\<close>

definition amount_as_read :: "string \<Rightarrow> string option \<Rightarrow> number" where
  "amount_as_read label text =
     parseFloat (js_replace ''$'' '''' (trim (js_replace label '''' (trim_or_empty text))))"

text \<open>
  The comparison of the claim on three numbers: the absolute difference of the total and
  the sum of subtotal and tax, computed on doubles, is below the double \<^verbatim>\<open>0.01\<close>.
\<close>

definition total_within_tolerance :: "number \<Rightarrow> number \<Rightarrow> number \<Rightarrow> bool" where
  "total_within_tolerance itemTotal tax total' =
     js_lt (Math_abs (js_sub total' (js_add itemTotal tax))) (round_double (1 / 100))"

section \<open>helpers.ts: retry\<close>

text \<open>
  A call in JavaScript may throw, and a promise may reject with, any value of the
  language, not only an \<^verbatim>\<open>Error\<close> object; the cast \<^verbatim>\<open>error as Error\<close> of the source is
  erased when the program is compiled and checks nothing. The values are the primitive
  ones, the \<^verbatim>\<open>Error\<close> objects, and the other objects, which are told apart by their
  identity.
\<close>

datatype js_value =
    JS_undefined
  | JS_null
  | JS_boolean bool
  | JS_number number
  | JS_bigint int
  | JS_string string
  | JS_symbol string
  | JS_error error
  | JS_object nat

text \<open>
  The truth value of a value, as \<^verbatim>\<open>||\<close> tests it: \<^verbatim>\<open>undefined\<close>, \<^verbatim>\<open>null\<close>, \<^verbatim>\<open>false\<close>,
  the zeros, NaN and the empty string are false, and every other value is true.
\<close>

fun truthy :: "js_value \<Rightarrow> bool" where
  "truthy JS_undefined = False"
| "truthy JS_null = False"
| "truthy (JS_boolean b) = b"
| "truthy (JS_number x) = (x \<noteq> NaN \<and> x \<noteq> Fin 0)"
| "truthy (JS_bigint i) = (i \<noteq> 0)"
| "truthy (JS_string t) = (t \<noteq> [])"
| "truthy (JS_symbol _) = True"
| "truthy (JS_error _) = True"
| "truthy (JS_object _) = True"

text \<open>
  \<^verbatim>\<open>
  export function sleep(ms: number): Promise<void> {
    return new Promise(resolve => setTimeout(resolve, ms));
  }

  export async function retry<T>(
    fn: () => Promise<T>,
    maxAttempts: number = 3,
    delay: number = 1000
  ): Promise<T> {
    let lastError: Error | undefined;

    for (let attempt = 1; attempt <= maxAttempts; attempt++) {
      try {
        return await fn();
      } catch (error) {
        lastError = error as Error;
        if (attempt < maxAttempts) {
          await sleep(delay);
        }
      }
    }

    throw lastError || new Error('Retry failed');
  }
  \<close>
  \<open>fn\<close> may have effects and may answer differently from one call to the next, so it is a
  function from the state of its world to its outcome (the value it throws, on the left,
  or its result) and the state that follows; every call of \<open>fn\<close> is taken to settle (a
  promise that never settles leaves \<^verbatim>\<open>retry\<close> waiting inside that attempt). The timer of
  the runtime is the parameter \<open>setTimeout\<close>: \<open>setTimeout ms s\<close> is the world at the moment
  the timer set in the world \<open>s\<close> for \<open>ms\<close> milliseconds fires; \<^verbatim>\<open>sleep\<close> does nothing else
  and never throws.
  \<open>maxAttempts\<close>, \<open>delay\<close> and the counter \<open>attempt\<close> are numbers: the comparisons are those
  of doubles, and \<^verbatim>\<open>attempt++\<close> is an addition of doubles. \<^verbatim>\<open>lastError\<close> starts as
  \<^verbatim>\<open>undefined\<close>. With a bound that is infinite, or so large that adding one to the
  counter no longer changes it, the loop need not end, so it is a partial function:
  \<open>None\<close> is a run that never returns.
\<close>

definition sleep :: "(number \<Rightarrow> 's \<Rightarrow> 's) \<Rightarrow> number \<Rightarrow> 's \<Rightarrow> 's" where
  "sleep setTimeout ms s = setTimeout ms s"

partial_function (option) retry_from ::
  "('s \<Rightarrow> (js_value + 'a) \<times> 's) \<Rightarrow> (number \<Rightarrow> 's \<Rightarrow> 's) \<Rightarrow> number \<Rightarrow> number \<Rightarrow>
   number \<Rightarrow> js_value \<Rightarrow> 's \<Rightarrow> ((js_value + 'a) \<times> 's) option"
where
  "retry_from fn setTimeout maxAttempts delay attempt lastError s =
     (if js_le attempt maxAttempts
      then (case fn s of
              (Inr result, s1) \<Rightarrow> Some (Inr result, s1)
            | (Inl error, s1) \<Rightarrow>
                if js_lt attempt maxAttempts
                then retry_from fn setTimeout maxAttempts delay (js_add attempt (Fin 1)) error
                       (sleep setTimeout delay s1)
                else retry_from fn setTimeout maxAttempts delay (js_add attempt (Fin 1)) error s1)
      else Some (Inl (if truthy lastError then lastError else JS_error (Error ''Retry failed'')), s))"

definition retry ::
  "('s \<Rightarrow> (js_value + 'a) \<times> 's) \<Rightarrow> (number \<Rightarrow> 's \<Rightarrow> 's) \<Rightarrow> number \<Rightarrow> number \<Rightarrow> 's \<Rightarrow>
   ((js_value + 'a) \<times> 's) option"
where
  "retry fn setTimeout maxAttempts delay s =
     retry_from fn setTimeout maxAttempts delay (Fin 1) JS_undefined s"

text \<open>
  What the claim about \<^verbatim>\<open>retry\<close> is compared with: \<open>before_attempt fn setTimeout delay s k\<close>
  is the world in which attempt \<open>k + 1\<close> runs when it is reached through \<open>k\<close> attempts,
  each followed by the firing of a timer of \<open>delay\<close> milliseconds. The world right after
  attempt \<open>k + 1\<close> is then \<open>snd (fn (before_attempt fn setTimeout delay s k))\<close>: it has seen
  \<open>k + 1\<close> calls of \<open>fn\<close>, a timer between any two of them, and none after the last.
\<close>

fun before_attempt ::
  "('s \<Rightarrow> (js_value + 'a) \<times> 's) \<Rightarrow> (number \<Rightarrow> 's \<Rightarrow> 's) \<Rightarrow> number \<Rightarrow> 's \<Rightarrow> nat \<Rightarrow> 's"
where
  "before_attempt fn setTimeout delay s 0 = s"
| "before_attempt fn setTimeout delay s (Suc k) =
     setTimeout delay (snd (fn (before_attempt fn setTimeout delay s k)))"

text \<open>
  The calls that \<^verbatim>\<open>retry\<close> makes are observed in a world that records them. Any function
  to retry and any timer are extended to such a world: the recording function adds
  \<open>Invoke_fn\<close> to the record whenever it is called, and the recording timer adds \<open>Sleep ms\<close>
  whenever a timer of \<open>ms\<close> milliseconds is set and fires.
\<close>

datatype call = Invoke_fn | Sleep number

definition recorded ::
  "('s \<Rightarrow> (js_value + 'a) \<times> 's) \<Rightarrow> 's \<times> call list \<Rightarrow> (js_value + 'a) \<times> 's \<times> call list"
where
  "recorded fn w = (fst (fn (fst w)), snd (fn (fst w)), snd w @ [Invoke_fn])"

definition recorded_timer ::
  "(number \<Rightarrow> 's \<Rightarrow> 's) \<Rightarrow> number \<Rightarrow> 's \<times> call list \<Rightarrow> 's \<times> call list"
where
  "recorded_timer setTimeout ms w = (setTimeout ms (fst w), snd w @ [Sleep ms])"

text \<open>The number of calls of the function in a record.\<close>

definition invocations :: "call list \<Rightarrow> nat" where
  "invocations calls = length (filter (\<lambda>c. c = Invoke_fn) calls)"

text \<open>The record of \<open>n\<close> attempts: a sleep between any two of them, none after the last.\<close>

fun attempts_log :: "number \<Rightarrow> nat \<Rightarrow> call list" where
  "attempts_log delay 0 = []"
| "attempts_log delay (Suc 0) = [Invoke_fn]"
| "attempts_log delay (Suc (Suc n)) = Invoke_fn # Sleep delay # attempts_log delay (Suc n)"

section \<open>Concrete sessions\<close>

text \<open>
  Engines on which the methods can be run. In a scripted session every reading call
  answers from a fixed table, every click succeeds, and the state is the list of the
  locators clicked so far. The four flag tables of the engine are one table here.
\<close>

definition scripted_engine ::
  "(locator \<Rightarrow> error + string option) \<Rightarrow> (locator \<Rightarrow> error + locator list) \<Rightarrow>
   (locator \<Rightarrow> error + nat) \<Rightarrow> (locator \<Rightarrow> error + bool) \<Rightarrow> (locator list) engine"
where
  "scripted_engine texts alls counts flags =
     \<lparr> locator_click = (\<lambda>l s. Inr (s @ [l])),
       locator_textContent = (\<lambda>l s. texts l),
       locator_all = (\<lambda>l s. alls l),
       locator_count = (\<lambda>l s. counts l),
       locator_isVisible = (\<lambda>l s. flags l),
       locator_isEnabled = (\<lambda>l s. flags l),
       locator_isDisabled = (\<lambda>l s. flags l),
       locator_isChecked = (\<lambda>l s. flags l),
       page_waitForTimeout = (\<lambda>ms s. Inr s) \<rparr>"

text \<open>
  In a cart session the state is the list of the cart lines, each a title text and a
  quantity text. A click on a button inside line \<open>i\<close> removes that line; a call on an
  element that is not there times out.
\<close>

definition cart_engine :: "((string \<times> string) list) engine" where
  "cart_engine =
     \<lparr> locator_click = (\<lambda>l s.
         case l of
           Sub_locator (Nth_locator _ i) _ \<Rightarrow>
             if i < length s then Inr (take i s @ drop (Suc i) s) else Inl (EngineError ''Timeout'')
         | _ \<Rightarrow> Inl (EngineError ''Timeout'')),
       locator_textContent = (\<lambda>l s.
         case l of
           Sub_locator (Nth_locator _ i) sel \<Rightarrow>
             if i < length s \<and> sel = CartPage_cartItemName then Inr (Some (fst (s ! i)))
             else if i < length s \<and> sel = CartPage_cartQuantity then Inr (Some (snd (s ! i)))
             else Inl (EngineError ''Timeout'')
         | _ \<Rightarrow> Inl (EngineError ''Timeout'')),
       locator_all = (\<lambda>l s. Inr (map (Nth_locator l) [0..<length s])),
       locator_count = (\<lambda>l s. Inr (length s)),
       locator_isVisible = (\<lambda>l s. Inr False),
       locator_isEnabled = (\<lambda>l s. Inr False),
       locator_isDisabled = (\<lambda>l s. Inr False),
       locator_isChecked = (\<lambda>l s. Inr False),
       page_waitForTimeout = (\<lambda>ms s. Inr s) \<rparr>"

text \<open>
  A scripted session on the inventory page: three products are listed, and the title of
  the second one carries white space around it.
\<close>

definition listed_titles :: "string list" where
  "listed_titles = [''Sauce Labs Backpack'', '' Sauce Labs Bike Light '', ''Sauce Labs Bolt T-Shirt'']"

definition inventory_engine :: "(locator list) engine" where
  "inventory_engine =
     scripted_engine
       (\<lambda>l. case l of
               Sub_locator (Nth_locator _ i) _ \<Rightarrow>
                 if i < length listed_titles then Inr (Some (listed_titles ! i))
                 else Inl (EngineError ''Timeout'')
             | _ \<Rightarrow> Inl (EngineError ''Timeout''))
       (\<lambda>l. Inr (map (Nth_locator l) [0..<length listed_titles]))
       (\<lambda>l. Inr (length listed_titles))
       (\<lambda>l. Inr True)"

text \<open>
  A cart session that also keeps the time: the state is the list of the cart lines and
  the list of the waits made so far, in milliseconds. A click on a button inside line \<open>i\<close>
  removes that line, and \<^verbatim>\<open>page.waitForTimeout(ms)\<close> adds \<open>ms\<close> to the waits.
\<close>

definition timed_cart_engine :: "(string list \<times> nat list) engine" where
  "timed_cart_engine =
     \<lparr> locator_click = (\<lambda>l (lines, waits).
         case l of
           Sub_locator (Nth_locator _ i) _ \<Rightarrow>
             if i < length lines then Inr (take i lines @ drop (Suc i) lines, waits)
             else Inl (EngineError ''Timeout'')
         | _ \<Rightarrow> Inl (EngineError ''Timeout'')),
       locator_textContent = (\<lambda>l (lines, waits).
         case l of
           Sub_locator (Nth_locator _ i) _ \<Rightarrow>
             if i < length lines then Inr (Some (lines ! i)) else Inl (EngineError ''Timeout'')
         | _ \<Rightarrow> Inl (EngineError ''Timeout'')),
       locator_all = (\<lambda>l (lines, waits). Inr (map (Nth_locator l) [0..<length lines])),
       locator_count = (\<lambda>l (lines, waits). Inr (length lines)),
       locator_isVisible = (\<lambda>l s. Inr False),
       locator_isEnabled = (\<lambda>l s. Inr False),
       locator_isDisabled = (\<lambda>l s. Inr False),
       locator_isChecked = (\<lambda>l s. Inr False),
       page_waitForTimeout = (\<lambda>ms (lines, waits). Inr (lines, waits @ [ms])) \<rparr>"

text \<open>
  Functions to retry, in the world that is only the record of the calls. The first two
  calls of \<open>flaky\<close> throw an \<^verbatim>\<open>Error\<close> and every later call returns; every call of
  \<open>rejects_undefined\<close> throws \<^verbatim>\<open>undefined\<close>, as \<^verbatim>\<open>() => Promise.reject()\<close> does. The timer
  of this world only records that it fired.
\<close>

definition timer :: "number \<Rightarrow> call list \<Rightarrow> call list" where
  "timer ms s = s @ [Sleep ms]"

definition flaky :: "call list \<Rightarrow> (js_value + string) \<times> call list" where
  "flaky s =
     (if invocations s < 2
      then Inl (JS_error (Error (''attempt '' @ digits_of (Suc (invocations s)) @ '' failed'')))
      else Inr ''done'',
      s @ [Invoke_fn])"

definition rejects_undefined :: "call list \<Rightarrow> (js_value + string) \<times> call list" where
  "rejects_undefined s = (Inl JS_undefined, s @ [Invoke_fn])"

text \<open>
  A scripted session on checkout step two: the three summary lines read the given texts.
\<close>

definition summary_engine :: "string \<Rightarrow> string \<Rightarrow> string \<Rightarrow> (locator list) engine" where
  "summary_engine itemTotalText taxText totalText =
     scripted_engine
       (\<lambda>l. if l = Page_locator CheckoutStepTwoPage_itemTotal then Inr (Some itemTotalText)
            else if l = Page_locator CheckoutStepTwoPage_tax then Inr (Some taxText)
            else if l = Page_locator CheckoutStepTwoPage_total then Inr (Some totalText)
            else Inl (EngineError ''Timeout''))
       (\<lambda>l. Inr []) (\<lambda>l. Inr 1) (\<lambda>l. Inr True)"

section \<open>Rounding to a double: exact values\<close>

lemma pow2_powi: "pow2 e = 2 powi e"
  by (simp add: pow2_def power_int_def power_inverse [symmetric] inverse_eq_divide)
     (simp add: power_one_over)

lemma pow2_pos [simp]: "0 < pow2 e"
  by (simp add: pow2_powi)

lemma pow2_nonzero [simp]: "pow2 e \<noteq> 0"
  by (metis less_irrefl pow2_pos)

lemma pow2_abs [simp]: "\<bar>pow2 e\<bar> = pow2 e"
  by (simp add: abs_of_pos)

lemma pow2_add: "pow2 (i + j) = pow2 i * pow2 j"
  by (simp add: pow2_powi power_int_add)

lemma pow2_diff: "pow2 (i - j) = pow2 i / pow2 j"
  by (simp add: pow2_powi power_int_diff)

lemma pow2_nat: "0 \<le> e \<Longrightarrow> pow2 e = 2 ^ nat e"
  by (simp add: pow2_def)

lemma pow2_mono: "i \<le> j \<Longrightarrow> pow2 i \<le> pow2 j"
  by (simp add: pow2_powi power_int_increasing)

lemma pow2_less_cancel: "pow2 i < pow2 j \<Longrightarrow> i < j"
  using pow2_mono [of j i] by (cases "i < j") auto

lemma bitlen_pow2_bounds:
  assumes "0 < (n::int)"
  shows "pow2 (bitlen n - 1) \<le> of_int n" and "(of_int n :: rat) < pow2 (bitlen n)"
proof -
  have b: "2 ^ nat (bitlen n - 1) \<le> n" "n < 2 ^ nat (bitlen n)"
    using bitlen_bounds [OF assms] by simp_all
  have b1: "1 \<le> bitlen n"
    using assms bitlen_eq_zero_iff [of n] bitlen_nonneg [of n] by linarith
  have "(of_int (2 ^ nat (bitlen n - 1)) :: rat) \<le> of_int n"
    using b(1) by (simp only: of_int_le_iff)
  then show "pow2 (bitlen n - 1) \<le> of_int n"
    using b1 by (simp add: pow2_nat)
  have "(of_int n :: rat) < of_int (2 ^ nat (bitlen n))"
    using b(2) by (simp only: of_int_less_iff)
  then show "(of_int n :: rat) < pow2 (bitlen n)"
    using b1 by (simp add: pow2_nat)
qed

lemma ilog2_bounds:
  assumes "0 < a"
  shows "pow2 (ilog2 a) \<le> a \<and> a < pow2 (ilog2 a + 1)"
proof -
  obtain n d where q: "quotient_of a = (n, d)" by (cases "quotient_of a")
  have d: "0 < d" using q by (rule quotient_of_denom_pos)
  have a: "a = of_int n / of_int d" using q by (rule quotient_of_div)
  have n: "0 < n" using assms d a by (simp add: zero_less_divide_iff)
  define k where "k = bitlen n - bitlen d"
  have il: "ilog2 a = (if pow2 k \<le> a then k else k - 1)"
    by (simp add: ilog2_def q k_def)
  have dpos: "(0::rat) < of_int d" using d by simp
  have up: "a < pow2 (k + 1)"
  proof -
    have "of_int n < pow2 (bitlen n)" using n by (rule bitlen_pow2_bounds)
    also have "pow2 (bitlen n) = pow2 (k + 1) * pow2 (bitlen d - 1)"
      by (simp add: k_def pow2_add [symmetric])
    also have "\<dots> \<le> pow2 (k + 1) * of_int d"
      using bitlen_pow2_bounds(1) [OF d] by (simp add: mult_left_mono less_imp_le)
    finally show ?thesis using dpos by (simp add: a pos_divide_less_eq)
  qed
  have low: "pow2 (k - 1) \<le> a"
  proof -
    have "pow2 (k - 1) * of_int d \<le> pow2 (k - 1) * pow2 (bitlen d)"
      using bitlen_pow2_bounds(2) [OF d] by (simp add: mult_left_mono less_imp_le)
    also have "\<dots> = pow2 (bitlen n - 1)"
      by (simp add: k_def pow2_add [symmetric])
    also have "\<dots> \<le> of_int n" using n by (rule bitlen_pow2_bounds)
    finally show ?thesis using dpos by (simp add: a pos_le_divide_eq)
  qed
  show ?thesis
  proof (cases "pow2 k \<le> a")
    case True
    then show ?thesis using up by (simp add: il)
  next
    case False
    then show ?thesis using low by (simp add: il)
  qed
qed

lemma ilog2_less: "0 < a \<Longrightarrow> a < pow2 e \<Longrightarrow> ilog2 a < e"
  using ilog2_bounds [of a] pow2_less_cancel [of "ilog2 a" e] by simp

lemma round_half_even_of_int [simp]: "round_half_even (of_int z) = z"
  by (simp add: round_half_even_def)

text \<open>
  A significand below \<open>2\<^sup>5\<^sup>3\<close> in absolute value, scaled by a power of two from \<open>2\<^sup>-\<^sup>1\<^sup>0\<^sup>7\<^sup>4\<close> on
  and below \<open>2\<^sup>1\<^sup>0\<^sup>2\<^sup>4\<close>, is a double: rounding returns it.
\<close>

lemma round_double_exact:
  assumes m: "\<bar>m\<bar> < 2 ^ 53" and p: "- 1074 \<le> p" and big: "\<bar>of_int m * pow2 p\<bar> < pow2 1024"
  shows "round_double (of_int m * pow2 p) = Fin (of_int m * pow2 p)"
proof (cases "m = 0")
  case True
  then show ?thesis by (simp add: round_double_def)
next
  case False
  define q where "q = of_int m * pow2 p"
  define a where "a = \<bar>q\<bar>"
  have a: "a = of_int \<bar>m\<bar> * pow2 p"
    by (simp add: a_def q_def abs_mult)
  have apos: "0 < a" using False by (simp add: a)
  have "of_int \<bar>m\<bar> < pow2 53"
  proof -
    have "(of_int \<bar>m\<bar> :: rat) < of_int (2 ^ 53)" using m by (simp only: of_int_less_iff)
    then show ?thesis by (simp add: pow2_def)
  qed
  then have "a < pow2 53 * pow2 p" by (simp add: a)
  then have "a < pow2 (p + 53)" by (simp add: pow2_add mult.commute)
  then have e: "ilog2 a - 52 \<le> p" using ilog2_less [OF apos] by fastforce
  define p' where "p' = max (ilog2 a - 52) (- 1074)"
  have p': "p' \<le> p" using e p by (simp add: p'_def)
  have split: "pow2 p = pow2 p' * 2 ^ nat (p - p')"
    using p' pow2_add [of p' "p - p'"] by (simp add: pow2_nat)
  have int: "a / pow2 p' = of_int (\<bar>m\<bar> * 2 ^ nat (p - p'))"
    by (simp add: a split)
  have r: "of_int (round_half_even (a / pow2 p')) * pow2 p' = a"
    by (simp only: int round_half_even_of_int) (simp add: a split)
  have qne: "q \<noteq> 0" using apos by (simp add: a_def)
  have "round_double q = (if pow2 1024 \<le> a then (if q < 0 then NegInf else PosInf)
                          else Fin (if q < 0 then - a else a))"
    using qne r by (simp add: round_double_def Let_def a_def [symmetric] p'_def [symmetric])
  also have "\<dots> = Fin q"
    using big by (simp add: a_def q_def [symmetric])
  finally show ?thesis by (simp add: q_def)
qed

lemma round_double_of_int:
  assumes "\<bar>m\<bar> < 2 ^ 53"
  shows "round_double (of_int m) = Fin (of_int m)"
proof -
  have "(of_int \<bar>m\<bar> :: rat) < of_int (2 ^ 53)" using assms by (simp only: of_int_less_iff)
  also have "(of_int (2 ^ 53) :: rat) \<le> pow2 1024" by (simp add: pow2_def)
  finally have "\<bar>of_int m * pow2 0\<bar> < pow2 1024" by (simp add: pow2_def)
  then show ?thesis
    using round_double_exact [of m 0] assms by (simp add: pow2_def)
qed

lemma ilog2_unique:
  assumes "pow2 e \<le> a" and "a < pow2 (e + 1)"
  shows "ilog2 a = e"
proof -
  have pos: "0 < a" using assms(1) pow2_pos [of e] by linarith
  have "pow2 (ilog2 a) \<le> a" and "a < pow2 (ilog2 a + 1)"
    using ilog2_bounds [OF pos] by simp_all
  then have up: "pow2 (ilog2 a) < pow2 (e + 1)" and low: "pow2 e < pow2 (ilog2 a + 1)"
    using assms by linarith+
  have "ilog2 a < e + 1" using up by (rule pow2_less_cancel)
  moreover have "e < ilog2 a + 1" using low by (rule pow2_less_cancel)
  ultimately show ?thesis by simp
qed

lemma round_half_even_unique:
  assumes "\<bar>of_int m - q\<bar> < 1 / 2"
  shows "round_half_even q = m"
proof -
  define f where "f = \<lfloor>q\<rfloor>"
  define r where "r = q - of_int f"
  have r: "0 \<le> r" "r < 1" by (simp_all add: r_def f_def) linarith
  have q: "q = of_int f + r" by (simp add: r_def)
  have eq: "round_half_even q = (if r < 1 / 2 then f else if 1 / 2 < r then f + 1
                                else if even f then f else f + 1)"
    by (simp add: round_half_even_def Let_def f_def r_def)
  have d: "\<bar>of_int (m - f) - r\<bar> < 1 / 2"
    using assms unfolding r_def of_int_diff by (simp add: algebra_simps)
  define z where "z = m - f"
  have dz: "of_int z - r < 1 / 2" "r - of_int z < 1 / 2"
    using d unfolding z_def of_int_diff by linarith+
  show ?thesis
  proof (cases "r < 1 / 2")
    case True
    have "(of_int z :: rat) < 1" and "- 1 < (of_int z :: rat)"
      using dz r True by linarith+
    then have "z < 1" and "- 1 < z" by simp_all
    then have "m = f" by (simp add: z_def)
    then show ?thesis using True by (simp add: eq)
  next
    case False
    have "(of_int z :: rat) < 2" and "0 < (of_int z :: rat)"
      using dz r False by linarith+
    then have "z < 2" and "0 < z" by simp_all
    then have m: "m = f + 1" by (simp add: z_def)
    have "r \<noteq> 1 / 2"
    proof
      assume "r = 1 / 2"
      then have "(of_int z :: rat) < 1" using dz by simp
      then have "z < 1" by simp
      then show False using \<open>0 < z\<close> by simp
    qed
    then have "1 / 2 < r" using False by simp
    then show ?thesis using False m by (simp add: eq)
  qed
qed

text \<open>Evaluating a rounding: the exponent and the significand are given and checked.\<close>

lemma round_double_eval:
  assumes "pow2 e \<le> q" and "q < pow2 (e + 1)" and "- 1022 \<le> e" and "e < 1023"
    and "\<bar>of_int m - q / pow2 (e - 52)\<bar> < 1 / 2"
  shows "round_double q = Fin (of_int m * pow2 (e - 52))"
proof -
  have pos: "0 < q" using assms(1) pow2_pos [of e] by linarith
  have e: "ilog2 q = e" using assms(1,2) by (rule ilog2_unique)
  have p: "max (ilog2 q - 52) (- 1074) = e - 52"
    using assms(3) by (simp add: e)
  have m: "round_half_even (q / pow2 (e - 52)) = m"
    using assms(5) by (rule round_half_even_unique)
  have "of_int m - q / pow2 (e - 52) < 1 / 2"
    using assms(5) by linarith
  then have "of_int m < q / pow2 (e - 52) + 1 / 2" by simp
  also have "q / pow2 (e - 52) < pow2 (e + 1) / pow2 (e - 52)"
    using assms(2) by (simp add: divide_strict_right_mono)
  also have "pow2 (e + 1) / pow2 (e - 52) = pow2 53"
    by (simp add: pow2_diff [symmetric])
  finally have "of_int m < pow2 53 + 1 / 2" by simp
  then have "of_int m * pow2 (e - 52) < (pow2 53 + 1 / 2) * pow2 (e - 52)"
    by (simp add: mult_strict_right_mono)
  also have "\<dots> \<le> (pow2 53 + 1 / 2) * pow2 970"
    using assms(4) by (intro mult_left_mono pow2_mono) (simp_all add: less_imp_le)
  also have "\<dots> < pow2 1024" by (simp add: pow2_def)
  finally have "\<not> pow2 1024 \<le> of_int m * pow2 (e - 52)" by simp
  then show ?thesis
    using pos by (simp add: round_double_def Let_def abs_of_pos p m)
qed

section \<open>Sortedness checks: what the loops decide\<close>

declare isSortedAscending_from.simps [simp del]
declare isSortedDescending_from.simps [simp del]

lemma adjacent_pairs_nth:
  "adjacent_pairs R xs = (\<forall>i. i + 1 < length xs \<longrightarrow> R (xs ! i) (xs ! (i + 1)))"
proof (induction R xs rule: adjacent_pairs.induct)
  case (3 R x y ys)
  have "(\<forall>i. i + 1 < length (x # y # ys) \<longrightarrow> R ((x # y # ys) ! i) ((x # y # ys) ! (i + 1)))
      = (R x y \<and> (\<forall>i. i + 1 < length (y # ys) \<longrightarrow> R ((y # ys) ! i) ((y # ys) ! (i + 1))))"
    (is "?L = ?R")
  proof
    assume l: ?L
    have "R x y" using l [rule_format, of 0] by simp
    moreover have "\<forall>i. i + 1 < length (y # ys) \<longrightarrow> R ((y # ys) ! i) ((y # ys) ! (i + 1))"
    proof (intro allI impI)
      fix i assume "i + 1 < length (y # ys)"
      then show "R ((y # ys) ! i) ((y # ys) ! (i + 1))"
        using l [rule_format, of "Suc i"] by simp
    qed
    ultimately show ?R by blast
  next
    assume r: ?R
    show ?L
    proof (intro allI impI)
      fix i assume i: "i + 1 < length (x # y # ys)"
      show "R ((x # y # ys) ! i) ((x # y # ys) ! (i + 1))"
      proof (cases i)
        case 0
        then show ?thesis using r by simp
      next
        case (Suc j)
        then show ?thesis using r i by simp
      qed
    qed
  qed
  with 3 show ?case by simp
qed simp_all

lemma forall_from_Suc:
  fixes P :: "nat \<Rightarrow> bool"
  assumes "P i"
  shows "(\<forall>j. i \<le> j \<and> Q j \<longrightarrow> P j) = (\<forall>j. i + 1 \<le> j \<and> Q j \<longrightarrow> P j)"
proof
  assume "\<forall>j. i \<le> j \<and> Q j \<longrightarrow> P j"
  then show "\<forall>j. i + 1 \<le> j \<and> Q j \<longrightarrow> P j" by auto
next
  assume r: "\<forall>j. i + 1 \<le> j \<and> Q j \<longrightarrow> P j"
  show "\<forall>j. i \<le> j \<and> Q j \<longrightarrow> P j"
  proof (intro allI impI)
    fix j assume j: "i \<le> j \<and> Q j"
    show "P j"
    proof (cases "j = i")
      case True
      then show ?thesis using assms by simp
    next
      case False
      then have "i + 1 \<le> j" using j by simp
      then show ?thesis using r j by blast
    qed
  qed
qed

lemma isSortedAscending_from_nth:
  "isSortedAscending_from arr i =
     (\<forall>j. i \<le> j \<and> j + 1 < length arr \<longrightarrow> \<not> js_gt (arr ! j) (arr ! (j + 1)))"
proof (induction arr i rule: isSortedAscending_from.induct)
  case (1 arr i)
  show ?case
  proof (cases "int i < int (length arr) - 1")
    case False
    then show ?thesis
      by (subst isSortedAscending_from.simps) auto
  next
    case inrange: True
    show ?thesis
    proof (cases "js_gt (arr ! i) (arr ! (i + 1))")
      case True
      then show ?thesis using inrange
        by (subst isSortedAscending_from.simps) auto
    next
      case False
      have "(\<forall>j. i \<le> j \<and> j + 1 < length arr \<longrightarrow> \<not> js_gt (arr ! j) (arr ! (j + 1)))
          = (\<forall>j. i + 1 \<le> j \<and> j + 1 < length arr \<longrightarrow> \<not> js_gt (arr ! j) (arr ! (j + 1)))"
        using False by (rule forall_from_Suc)
      then show ?thesis using inrange False "1.IH"
        by (subst isSortedAscending_from.simps) simp
    qed
  qed
qed

lemma isSortedDescending_from_nth:
  "isSortedDescending_from arr i =
     (\<forall>j. i \<le> j \<and> j + 1 < length arr \<longrightarrow> \<not> js_lt (arr ! j) (arr ! (j + 1)))"
proof (induction arr i rule: isSortedDescending_from.induct)
  case (1 arr i)
  show ?case
  proof (cases "int i < int (length arr) - 1")
    case False
    then show ?thesis
      by (subst isSortedDescending_from.simps) auto
  next
    case inrange: True
    show ?thesis
    proof (cases "js_lt (arr ! i) (arr ! (i + 1))")
      case True
      then show ?thesis using inrange
        by (subst isSortedDescending_from.simps) auto
    next
      case False
      have "(\<forall>j. i \<le> j \<and> j + 1 < length arr \<longrightarrow> \<not> js_lt (arr ! j) (arr ! (j + 1)))
          = (\<forall>j. i + 1 \<le> j \<and> j + 1 < length arr \<longrightarrow> \<not> js_lt (arr ! j) (arr ! (j + 1)))"
        using False by (rule forall_from_Suc)
      then show ?thesis using inrange False "1.IH"
        by (subst isSortedDescending_from.simps) simp
    qed
  qed
qed

lemma not_js_gt_iff_le: "a \<noteq> NaN \<Longrightarrow> b \<noteq> NaN \<Longrightarrow> (\<not> js_gt a b) = js_le a b"
  by (simp add: js_gt_def js_le_def)

lemma not_js_lt_iff_ge: "a \<noteq> NaN \<Longrightarrow> b \<noteq> NaN \<Longrightarrow> (\<not> js_lt a b) = js_ge a b"
  by (simp add: js_ge_def)

lemma isSortedAscending_no_inversion:
  "isSortedAscending arr = (\<forall>i. i + 1 < length arr \<longrightarrow> \<not> js_gt (arr ! i) (arr ! (i + 1)))"
  by (simp add: isSortedAscending_def isSortedAscending_from_nth)

lemma isSortedDescending_no_inversion:
  "isSortedDescending arr = (\<forall>i. i + 1 < length arr \<longrightarrow> \<not> js_lt (arr ! i) (arr ! (i + 1)))"
  by (simp add: isSortedDescending_def isSortedDescending_from_nth)

lemma isSortedAscending_adjacent:
  "isSortedAscending arr = adjacent_pairs (\<lambda>a b. \<not> js_gt a b) arr"
  by (simp add: isSortedAscending_no_inversion adjacent_pairs_nth)

lemma isSortedDescending_adjacent:
  "isSortedDescending arr = adjacent_pairs (\<lambda>a b. \<not> js_lt a b) arr"
  by (simp add: isSortedDescending_no_inversion adjacent_pairs_nth)

text \<open>
  Claim C8, as stated, at an array that holds NaN (the value \<^verbatim>\<open>parseFloat\<close> gives for a
  price text that is no numeral): \<^verbatim>\<open>2 > NaN\<close> and \<^verbatim>\<open>NaN > 1\<close> are both false, so
  \<^verbatim>\<open>isSortedAscending([2, NaN, 1])\<close> returns true, although the first adjacent pair does not
  satisfy \<^verbatim>\<open>arr[0] <= arr[1]\<close>.
\<close>

theorem isSortedAscending_NaN_counterexample:
  "isSortedAscending [Fin 2, NaN, Fin 1] \<and>
   \<not> js_le ([Fin 2, NaN, Fin 1] ! 0) ([Fin 2, NaN, Fin 1] ! 1)"
  by (simp add: isSortedAscending_adjacent js_gt_def js_le_def)

text \<open>
  Claim C8, amended to arrays without NaN: \<^verbatim>\<open>isSortedAscending\<close> returns true if and only
  if every adjacent pair satisfies \<^verbatim>\<open>arr[i] <= arr[i+1]\<close> (so equal neighbours are
  accepted), and \<^verbatim>\<open>isSortedDescending\<close> returns true if and only if every adjacent pair
  satisfies \<^verbatim>\<open>arr[i] >= arr[i+1]\<close>.
\<close>

theorem isSorted_iff_adjacent_ordered:
  assumes "NaN \<notin> set arr"
  shows "(isSortedAscending arr
            = (\<forall>i. i + 1 < length arr \<longrightarrow> js_le (arr ! i) (arr ! (i + 1)))) \<and>
         (isSortedDescending arr
            = (\<forall>i. i + 1 < length arr \<longrightarrow> js_ge (arr ! i) (arr ! (i + 1))))"
proof -
  have mem: "arr ! i \<noteq> NaN \<and> arr ! (i + 1) \<noteq> NaN" if "i + 1 < length arr" for i
  proof -
    have "arr ! i \<in> set arr" and "arr ! (i + 1) \<in> set arr"
      using that by simp_all
    then show ?thesis using assms by metis
  qed
  have asc: "(\<forall>i. i + 1 < length arr \<longrightarrow> \<not> js_gt (arr ! i) (arr ! (i + 1)))
           = (\<forall>i. i + 1 < length arr \<longrightarrow> js_le (arr ! i) (arr ! (i + 1)))"
    using mem not_js_gt_iff_le by blast
  have desc: "(\<forall>i. i + 1 < length arr \<longrightarrow> \<not> js_lt (arr ! i) (arr ! (i + 1)))
           = (\<forall>i. i + 1 < length arr \<longrightarrow> js_ge (arr ! i) (arr ! (i + 1)))"
    using mem not_js_lt_iff_ge by blast
  show ?thesis
    using asc desc
    by (simp only: isSortedAscending_no_inversion isSortedDescending_no_inversion)
qed

text \<open>
  The theorem at the six catalog prices in ascending order, where the two items priced
  15.99 are neighbours, and at the same prices in descending order.
\<close>

theorem isSorted_catalog_prices_witness:
  "NaN \<notin> set [Fin (799/100), Fin (999/100), Fin (1599/100), Fin (1599/100), Fin (2999/100), Fin (4999/100)] \<and>
   isSortedAscending [Fin (799/100), Fin (999/100), Fin (1599/100), Fin (1599/100), Fin (2999/100), Fin (4999/100)] \<and>
   NaN \<notin> set [Fin (4999/100), Fin (2999/100), Fin (1599/100), Fin (1599/100), Fin (999/100), Fin (799/100)] \<and>
   isSortedDescending [Fin (4999/100), Fin (2999/100), Fin (1599/100), Fin (1599/100), Fin (999/100), Fin (799/100)]"
proof -
  let ?up = "[Fin (799/100), Fin (999/100), Fin (1599/100), Fin (1599/100), Fin (2999/100), Fin (4999/100)]"
  let ?down = "[Fin (4999/100), Fin (2999/100), Fin (1599/100), Fin (1599/100), Fin (999/100), Fin (799/100)]"
  have up: "NaN \<notin> set ?up" and down: "NaN \<notin> set ?down"
    by simp_all
  have "adjacent_pairs js_le ?up" and "adjacent_pairs js_ge ?down"
    by (simp_all add: js_le_def js_ge_def)
  then have "\<forall>i. i + 1 < length ?up \<longrightarrow> js_le (?up ! i) (?up ! (i + 1))"
    and "\<forall>i. i + 1 < length ?down \<longrightarrow> js_ge (?down ! i) (?down ! (i + 1))"
    using adjacent_pairs_nth [of js_le ?up] adjacent_pairs_nth [of js_ge ?down] by blast+
  then have "isSortedAscending ?up" and "isSortedDescending ?down"
    using isSorted_iff_adjacent_ordered [OF up] isSorted_iff_adjacent_ordered [OF down]
    by blast+
  then show ?thesis using up down by blast
qed

section \<open>BasePage: the state-check methods\<close>

lemma isElementVisible_returns: "\<exists>b. isElementVisible E selector s = Inr b"
  by (cases "locator_isVisible E (Page_locator selector) s") (auto simp: isElementVisible_def)

lemma isElementEnabled_returns: "\<exists>b. isElementEnabled E selector s = Inr b"
  by (cases "locator_isEnabled E (Page_locator selector) s") (auto simp: isElementEnabled_def)

lemma isElementDisabled_returns: "\<exists>b. isElementDisabled E selector s = Inr b"
  by (cases "locator_isDisabled E (Page_locator selector) s") (auto simp: isElementDisabled_def)

lemma isElementChecked_returns: "\<exists>b. isElementChecked E selector s = Inr b"
  by (cases "locator_isChecked E (Page_locator selector) s") (auto simp: isElementChecked_def)

lemma isElementVisible_eq:
  "isElementVisible E selector s = Inr (locator_isVisible E (Page_locator selector) s = Inr True)"
  by (auto simp: isElementVisible_def split: sum.split)

text \<open>
  The four guarded state checks always return a boolean, and an error of the engine call
  becomes \<open>False\<close>.
\<close>

lemma guarded_state_checks_never_throw:
  "(\<exists>b. isElementVisible E selector s = Inr b) \<and>
   (\<exists>b. isElementEnabled E selector s = Inr b) \<and>
   (\<exists>b. isElementDisabled E selector s = Inr b) \<and>
   (\<exists>b. isElementChecked E selector s = Inr b)"
  by (intro conjI isElementVisible_returns isElementEnabled_returns
      isElementDisabled_returns isElementChecked_returns)

lemma guarded_state_checks_error_is_False:
  "(locator_isVisible E (Page_locator selector) s = Inl e \<longrightarrow> isElementVisible E selector s = Inr False) \<and>
   (locator_isEnabled E (Page_locator selector) s = Inl e \<longrightarrow> isElementEnabled E selector s = Inr False) \<and>
   (locator_isDisabled E (Page_locator selector) s = Inl e \<longrightarrow> isElementDisabled E selector s = Inr False) \<and>
   (locator_isChecked E (Page_locator selector) s = Inl e \<longrightarrow> isElementChecked E selector s = Inr False)"
  by (simp add: isElementVisible_def isElementEnabled_def isElementDisabled_def
      isElementChecked_def)

lemma isElementPresent_eq:
  "isElementPresent E selector s =
     (case locator_count E (Page_locator selector) s of Inl e \<Rightarrow> Inl e | Inr n \<Rightarrow> Inr (0 < n))"
  by (simp add: isElementPresent_def)

text \<open>
  Claim C3 at \<^verbatim>\<open>isElementPresent\<close>: in a session whose \<^verbatim>\<open>count()\<close> call throws (the page
  has been closed), \<^verbatim>\<open>isElementPresent\<close> throws the engine's error, where the four other
  state checks return \<open>False\<close>.
\<close>

theorem isElementPresent_propagates_engine_error:
  "isElementPresent
     (scripted_engine (\<lambda>l. Inl (EngineError ''Target page has been closed''))
        (\<lambda>l. Inl (EngineError ''Target page has been closed''))
        (\<lambda>l. Inl (EngineError ''Target page has been closed''))
        (\<lambda>l. Inl (EngineError ''Target page has been closed'')))
     ''.shopping_cart_badge'' []
   = Inl (EngineError ''Target page has been closed'') \<and>
   isElementVisible
     (scripted_engine (\<lambda>l. Inl (EngineError ''Target page has been closed''))
        (\<lambda>l. Inl (EngineError ''Target page has been closed''))
        (\<lambda>l. Inl (EngineError ''Target page has been closed''))
        (\<lambda>l. Inl (EngineError ''Target page has been closed'')))
     ''.shopping_cart_badge'' []
   = Inr False"
  by (simp add: isElementPresent_def isElementVisible_def scripted_engine_def)

section \<open>LoginPage and CheckoutStepOnePage: getErrorMessage\<close>

lemma getErrorMessage_eq:
  "LoginPage_getErrorMessage E s =
     (if locator_isVisible E (Page_locator LoginPage_errorMessage) s = Inr True
      then getText E LoginPage_errorMessage s else Inr [])"
  "CheckoutStepOnePage_getErrorMessage E s =
     (if locator_isVisible E (Page_locator CheckoutStepOnePage_errorMessage) s = Inr True
      then getText E CheckoutStepOnePage_errorMessage s else Inr [])"
  by (simp_all add: LoginPage_getErrorMessage_def CheckoutStepOnePage_getErrorMessage_def
      isElementVisible_eq)

text \<open>
  Claim C5, as stated, in a session where the banner is reported visible and the read of
  its text then times out (the banner was closed between the two calls):
  \<^verbatim>\<open>getErrorMessage\<close> throws.
\<close>

theorem getErrorMessage_throws_counterexample:
  "LoginPage_getErrorMessage
     (scripted_engine (\<lambda>l. Inl (EngineError ''Timeout 30000ms exceeded''))
        (\<lambda>l. Inr []) (\<lambda>l. Inr 0) (\<lambda>l. Inr True)) []
   = Inl (EngineError ''Timeout 30000ms exceeded'')"
  by (simp add: getErrorMessage_eq getText_def scripted_engine_def)

text \<open>
  Claim C5, amended. On the login page and on checkout step one, \<^verbatim>\<open>getErrorMessage\<close>
  returns the empty string whenever the visibility probe does not answer \<^verbatim>\<open>true\<close> (the
  banner is absent or hidden, or the probe itself throws); when the probe answers
  \<^verbatim>\<open>true\<close> and the read of the text succeeds it returns the trimmed text (the empty string
  for a \<^verbatim>\<open>null\<close> text); and it throws only when the probe answers \<^verbatim>\<open>true\<close> and the read
  of the text throws, and then it throws the read's error.
\<close>

theorem getErrorMessage_contract:
  "(locator_isVisible E (Page_locator LoginPage_errorMessage) s \<noteq> Inr True
      \<longrightarrow> LoginPage_getErrorMessage E s = Inr []) \<and>
   (locator_isVisible E (Page_locator LoginPage_errorMessage) s = Inr True \<and>
    locator_textContent E (Page_locator LoginPage_errorMessage) s = Inr text
      \<longrightarrow> LoginPage_getErrorMessage E s = Inr (trim_or_empty text)) \<and>
   (LoginPage_getErrorMessage E s = Inl e
      \<longrightarrow> locator_isVisible E (Page_locator LoginPage_errorMessage) s = Inr True \<and>
          locator_textContent E (Page_locator LoginPage_errorMessage) s = Inl e) \<and>
   (locator_isVisible E (Page_locator CheckoutStepOnePage_errorMessage) s \<noteq> Inr True
      \<longrightarrow> CheckoutStepOnePage_getErrorMessage E s = Inr []) \<and>
   (locator_isVisible E (Page_locator CheckoutStepOnePage_errorMessage) s = Inr True \<and>
    locator_textContent E (Page_locator CheckoutStepOnePage_errorMessage) s = Inr text
      \<longrightarrow> CheckoutStepOnePage_getErrorMessage E s = Inr (trim_or_empty text)) \<and>
   (CheckoutStepOnePage_getErrorMessage E s = Inl e
      \<longrightarrow> locator_isVisible E (Page_locator CheckoutStepOnePage_errorMessage) s = Inr True \<and>
          locator_textContent E (Page_locator CheckoutStepOnePage_errorMessage) s = Inl e)"
  by (auto simp: getErrorMessage_eq getText_def split: sum.splits if_splits)

section \<open>Evaluating the string functions on literals\<close>

lemma round_double_numeral:
  "(numeral k :: int) < 2 ^ 53 \<Longrightarrow> round_double (numeral k) = Fin (numeral k)"
  using round_double_of_int [of "numeral k"] by simp

lemma round_double_neg_numeral:
  "(numeral k :: int) < 2 ^ 53 \<Longrightarrow> round_double (- numeral k) = Fin (- numeral k)"
  using round_double_of_int [of "- numeral k"] by simp

lemma round_double_0 [simp]: "round_double 0 = Fin 0"
  by (simp add: round_double_def)

lemma round_double_1 [simp]: "round_double 1 = Fin 1"
  using round_double_of_int [of 1] by simp

lemmas eval_string = trim_def is_ws_def is_digit_def digit_value_def digits_value_def
  read_sign_def read_exponent_def pow10_def trim_or_empty_def trim_or_zero_def

lemma parseInt_10_zero: "parseInt_10 ''0'' = Fin 0"
  by (simp add: parseInt_10_def eval_string)

section \<open>InventoryPage: the cart badge\<close>

text \<open>
  Claim C6. \<^verbatim>\<open>getCartItemCount\<close> of the inventory page returns 0 whenever the visibility
  probe of the badge does not answer \<^verbatim>\<open>true\<close> (the badge is absent or hidden, or the probe
  throws); when the badge is visible it returns what \<^verbatim>\<open>parseInt\<close> reads from the trimmed
  text of the badge; and it throws only when the badge was reported visible and the read
  of its text throws, so that a missing badge is never an error.
\<close>

theorem InventoryPage_getCartItemCount_contract:
  "(locator_isVisible E (Page_locator InventoryPage_cartBadge) s \<noteq> Inr True
      \<longrightarrow> InventoryPage_getCartItemCount E s = Inr (Fin 0)) \<and>
   (locator_isVisible E (Page_locator InventoryPage_cartBadge) s = Inr True \<and>
    locator_textContent E (Page_locator InventoryPage_cartBadge) s = Inr text
      \<longrightarrow> InventoryPage_getCartItemCount E s = Inr (parseInt_10 (trim_or_empty text))) \<and>
   (InventoryPage_getCartItemCount E s = Inl e
      \<longrightarrow> locator_isVisible E (Page_locator InventoryPage_cartBadge) s = Inr True \<and>
          locator_textContent E (Page_locator InventoryPage_cartBadge) s = Inl e)"
  by (auto simp: InventoryPage_getCartItemCount_def isElementVisible_eq getText_def
      split: sum.splits if_splits)

text \<open>
  The theorem in two sessions: one without a badge, where the probe answers \<^verbatim>\<open>false\<close>, and
  one whose badge reads \<^verbatim>\<open>" 3 "\<close>.
\<close>

theorem InventoryPage_getCartItemCount_witness:
  "InventoryPage_getCartItemCount
     (scripted_engine (\<lambda>l. Inl (EngineError ''Timeout 30000ms exceeded''))
        (\<lambda>l. Inr []) (\<lambda>l. Inr 0) (\<lambda>l. Inr False)) []
   = Inr (Fin 0) \<and>
   InventoryPage_getCartItemCount
     (scripted_engine (\<lambda>l. Inr (Some '' 3 '')) (\<lambda>l. Inr []) (\<lambda>l. Inr 1) (\<lambda>l. Inr True)) []
   = Inr (Fin 3)"
  using InventoryPage_getCartItemCount_contract
          [of "scripted_engine (\<lambda>l. Inl (EngineError ''Timeout 30000ms exceeded''))
                 (\<lambda>l. Inr []) (\<lambda>l. Inr 0) (\<lambda>l. Inr False)" "[]"]
        InventoryPage_getCartItemCount_contract
          [of "scripted_engine (\<lambda>l. Inr (Some '' 3 '')) (\<lambda>l. Inr []) (\<lambda>l. Inr 1) (\<lambda>l. Inr True)"
              "[]" "Some '' 3 ''"]
  by (simp add: scripted_engine_def parseInt_10_def eval_string round_double_numeral)

section \<open>LoginPage and CheckoutStepOnePage: getErrorMessage on concrete sessions\<close>

text \<open>
  The contract of \<^verbatim>\<open>getErrorMessage\<close> in a session that shows the banner of an empty user
  name, and in a session that was closed, where every engine call throws.
\<close>

theorem getErrorMessage_contract_witness:
  "LoginPage_getErrorMessage
     (scripted_engine (\<lambda>l. Inr (Some '' Epic sadface: Username is required ''))
        (\<lambda>l. Inr []) (\<lambda>l. Inr 1) (\<lambda>l. Inr True)) []
   = Inr ''Epic sadface: Username is required'' \<and>
   CheckoutStepOnePage_getErrorMessage
     (scripted_engine (\<lambda>l. Inl (EngineError ''Target page has been closed''))
        (\<lambda>l. Inl (EngineError ''Target page has been closed''))
        (\<lambda>l. Inl (EngineError ''Target page has been closed''))
        (\<lambda>l. Inl (EngineError ''Target page has been closed''))) []
   = Inr []"
  using getErrorMessage_contract
          [of "scripted_engine (\<lambda>l. Inr (Some '' Epic sadface: Username is required ''))
                 (\<lambda>l. Inr []) (\<lambda>l. Inr 1) (\<lambda>l. Inr True)" "[]"
              "Some '' Epic sadface: Username is required ''"]
        getErrorMessage_contract
          [of "scripted_engine (\<lambda>l. Inl (EngineError ''Target page has been closed''))
                 (\<lambda>l. Inl (EngineError ''Target page has been closed''))
                 (\<lambda>l. Inl (EngineError ''Target page has been closed''))
                 (\<lambda>l. Inl (EngineError ''Target page has been closed''))" "[]"]
  by (simp add: scripted_engine_def eval_string)

section \<open>By-name operations of the inventory and the cart\<close>

lemma click_first_named_not_found:
  "list_all (title_differs E title productName s) items \<Longrightarrow>
   click_first_named E title button message productName items s = Inl (Error message)"
  by (induction items) (auto simp: title_differs_def split: sum.splits)

lemma click_first_named_first_match:
  "first_match E title productName s items i \<Longrightarrow>
   click_first_named E title button message productName items s
     = locator_click E (Sub_locator (items ! i) button) s"
proof (induction items arbitrary: i)
  case Nil
  then show ?case by (simp add: first_match_def)
next
  case (Cons item items)
  show ?case
  proof (cases i)
    case 0
    then show ?thesis using Cons.prems
      by (auto simp: first_match_def title_matches_def split: sum.splits option.splits)
  next
    case (Suc j)
    then have "first_match E title productName s items j"
      and "title_differs E title productName s item"
      using Cons.prems by (simp_all add: first_match_def)
    then show ?thesis using Cons.IH [of j] Suc
      by (auto simp: title_differs_def split: sum.splits)
  qed
qed

lemma click_first_named_success:
  "click_first_named E title button message productName items s = Inr s' \<Longrightarrow>
   \<exists>i. first_match E title productName s items i \<and>
       locator_click E (Sub_locator (items ! i) button) s = Inr s'"
proof (induction items)
  case Nil
  then show ?case by simp
next
  case (Cons item items)
  show ?case
  proof (cases "title_matches E title productName s item")
    case True
    then have "first_match E title productName s (item # items) 0"
      by (simp add: first_match_def)
    moreover have "locator_click E (Sub_locator item button) s = Inr s'"
      using True Cons.prems
      by (auto simp: title_matches_def split: sum.splits option.splits if_splits)
    ultimately show ?thesis by (metis nth_Cons_0)
  next
    case False
    then have d: "title_differs E title productName s item"
      and rest: "click_first_named E title button message productName items s = Inr s'"
      using Cons.prems
      by (auto simp: title_matches_def title_differs_def split: sum.splits option.splits if_splits)
    then obtain i where i: "first_match E title productName s items i"
      "locator_click E (Sub_locator (items ! i) button) s = Inr s'"
      using Cons.IH by blast
    have "first_match E title productName s (item # items) (Suc i)"
      using i(1) d by (simp add: first_match_def)
    then show ?thesis using i(2) by (metis nth_Cons_Suc)
  qed
qed

text \<open>A listing has at most one first match.\<close>

lemma first_match_unique:
  assumes "first_match E title productName s items i"
    and "first_match E title productName s items j"
  shows "i = j"
proof -
  have no: "\<not> (title_matches E title productName s x \<and> title_differs E title productName s x)" for x
    by (auto simp: title_matches_def title_differs_def split: sum.splits option.splits)
  have "\<not> i < j"
  proof
    assume "i < j"
    then have "items ! i \<in> set (take j items)"
      using assms by (metis first_match_def in_set_conv_nth length_take min_less_iff_conj nth_take)
    then have "title_differs E title productName s (items ! i)"
      using assms(2) by (simp add: first_match_def list_all_iff)
    then show False using assms(1) no by (simp add: first_match_def)
  qed
  moreover have "\<not> j < i"
  proof
    assume "j < i"
    then have "items ! j \<in> set (take i items)"
      using assms by (metis first_match_def in_set_conv_nth length_take min_less_iff_conj nth_take)
    then have "title_differs E title productName s (items ! j)"
      using assms(1) by (simp add: first_match_def list_all_iff)
    then show False using assms(2) no by (simp add: first_match_def)
  qed
  ultimately show ?thesis by simp
qed

text \<open>
  Claim C2. With \<open>products\<close> the items of the inventory listing and \<open>items\<close> the lines of
  the cart, as \<^verbatim>\<open>all()\<close> returns them: each of \<^verbatim>\<open>addProductToCartByName\<close>,
  \<^verbatim>\<open>removeProductFromCartByName\<close> and \<^verbatim>\<open>removeItemByName\<close> throws its not-found error when
  every title is read and none, trimmed, equals the name; clicks the button of the first
  item whose trimmed title equals the name, and returns what the click returns; and when
  it returns without an error, the click on the first matching item has been made: the
  state returned is the one that click produced.
\<close>

theorem by_name_operations_contract:
  assumes inventory: "locator_all E (Page_locator InventoryPage_productItems) s = Inr products"
    and cart: "locator_all E (Page_locator CartPage_cartItems) s = Inr items"
  shows
  \<open>(list_all (title_differs E InventoryPage_productName productName s) products \<longrightarrow>
      addProductToCartByName E productName s
        = Inl (Error (''Product "'' @ productName @ ''" not found'')) \<and>
      removeProductFromCartByName E productName s
        = Inl (Error (''Product "'' @ productName @ ''" not found for removal''))) \<and>
   (list_all (title_differs E CartPage_cartItemName productName s) items \<longrightarrow>
      removeItemByName E productName s
        = Inl (Error (''Product "'' @ productName @ ''" not found in cart for removal''))) \<and>
   (first_match E InventoryPage_productName productName s products i \<longrightarrow>
      addProductToCartByName E productName s
        = locator_click E (Sub_locator (products ! i) ''button[id^="add-to-cart"]'') s \<and>
      removeProductFromCartByName E productName s
        = locator_click E (Sub_locator (products ! i) ''button[id^="remove"]'') s) \<and>
   (first_match E CartPage_cartItemName productName s items i \<longrightarrow>
      removeItemByName E productName s
        = locator_click E (Sub_locator (items ! i) ''button[id^="remove"]'') s) \<and>
   (addProductToCartByName E productName s = Inr s' \<longrightarrow>
      (\<exists>i. first_match E InventoryPage_productName productName s products i \<and>
           locator_click E (Sub_locator (products ! i) ''button[id^="add-to-cart"]'') s = Inr s')) \<and>
   (removeProductFromCartByName E productName s = Inr s' \<longrightarrow>
      (\<exists>i. first_match E InventoryPage_productName productName s products i \<and>
           locator_click E (Sub_locator (products ! i) ''button[id^="remove"]'') s = Inr s')) \<and>
   (removeItemByName E productName s = Inr s' \<longrightarrow>
      (\<exists>i. first_match E CartPage_cartItemName productName s items i \<and>
           locator_click E (Sub_locator (items ! i) ''button[id^="remove"]'') s = Inr s'))\<close>
  using inventory cart
  by (simp add: addProductToCartByName_def removeProductFromCartByName_def removeItemByName_def
      click_first_named_not_found click_first_named_first_match click_first_named_success)

text \<open>
  The theorem in the scripted inventory session and in a cart session. Adding the bike
  light clicks the button of the second item, whose title equals the name once trimmed;
  a name that is only the beginning of the titles is not found; removing the bike light
  from a cart of two lines leaves the other line.
\<close>

lemma inventory_engine_all:
  "locator_all inventory_engine (Page_locator sel) []
     = Inr [Nth_locator (Page_locator sel) 0, Nth_locator (Page_locator sel) 1,
            Nth_locator (Page_locator sel) 2]"
  by (simp add: inventory_engine_def scripted_engine_def listed_titles_def upt_rec)

lemma cart_engine_all:
  "locator_all cart_engine (Page_locator sel) [a, b]
     = Inr [Nth_locator (Page_locator sel) 0, Nth_locator (Page_locator sel) 1]"
  by (simp add: cart_engine_def upt_rec)

theorem by_name_operations_witness:
  \<open>addProductToCartByName inventory_engine ''Sauce Labs Bike Light'' []
     = Inr [Sub_locator (Nth_locator (Page_locator ''.inventory_item'') 1) ''button[id^="add-to-cart"]''] \<and>
   addProductToCartByName inventory_engine ''Sauce Labs'' []
     = Inl (Error ''Product "Sauce Labs" not found'') \<and>
   removeItemByName cart_engine ''Sauce Labs Bike Light''
       [(''Sauce Labs Backpack'', ''1''), (''Sauce Labs Bike Light'', ''1'')]
     = Inr [(''Sauce Labs Backpack'', ''1'')]\<close>
proof -
  let ?inv = "\<lambda>i. Nth_locator (Page_locator InventoryPage_productItems) i"
  let ?products = "[?inv 0, ?inv 1, ?inv 2]"
  let ?crt = "\<lambda>i. Nth_locator (Page_locator CartPage_cartItems) i"
  let ?items = "[?crt 0, ?crt 1]"
  let ?lines = "[(''Sauce Labs Backpack'', ''1''), (''Sauce Labs Bike Light'', ''1'')]"
  have inv: "locator_all inventory_engine (Page_locator InventoryPage_productItems) [] = Inr ?products"
    by (rule inventory_engine_all)
  have found: "first_match inventory_engine InventoryPage_productName ''Sauce Labs Bike Light'' []
                 ?products 1"
    by (simp add: first_match_def title_matches_def title_differs_def inventory_engine_def
        scripted_engine_def listed_titles_def eval_string)
  have none: "list_all (title_differs inventory_engine InventoryPage_productName ''Sauce Labs'' [])
                ?products"
    by (simp add: title_differs_def inventory_engine_def scripted_engine_def listed_titles_def
        eval_string)
  have a: "addProductToCartByName inventory_engine ''Sauce Labs Bike Light'' []
             = locator_click inventory_engine
                 (Sub_locator (?products ! 1) ''button[id^=\"add-to-cart\"]'') []"
    using by_name_operations_contract [OF inv inventory_engine_all, of "''Sauce Labs Bike Light''" 1]
      found by blast
  have b: "addProductToCartByName inventory_engine ''Sauce Labs'' []
             = Inl (Error (''Product \"'' @ ''Sauce Labs'' @ ''\" not found''))"
    using by_name_operations_contract [OF inv inventory_engine_all, of "''Sauce Labs''"]
      none by blast
  have crt: "locator_all cart_engine (Page_locator CartPage_cartItems) ?lines = Inr ?items"
    by (rule cart_engine_all)
  have crt_inv: "locator_all cart_engine (Page_locator InventoryPage_productItems) ?lines
                   = Inr [Nth_locator (Page_locator InventoryPage_productItems) 0,
                          Nth_locator (Page_locator InventoryPage_productItems) 1]"
    by (rule cart_engine_all)
  have found': "first_match cart_engine CartPage_cartItemName ''Sauce Labs Bike Light'' ?lines
                  ?items 1"
    by (simp add: first_match_def title_matches_def title_differs_def cart_engine_def eval_string)
  have c: "removeItemByName cart_engine ''Sauce Labs Bike Light'' ?lines
             = locator_click cart_engine (Sub_locator (?items ! 1) ''button[id^=\"remove\"]'') ?lines"
    using by_name_operations_contract [OF crt_inv crt, of "''Sauce Labs Bike Light''" 1]
      found' by blast
  show ?thesis
    by (simp only: a b c)
       (simp add: inventory_engine_def scripted_engine_def cart_engine_def
          InventoryPage_productItems_def)
qed

section \<open>CartPage: getItemQuantity\<close>

lemma getItemQuantity_loop_no_match:
  "list_all (title_differs E CartPage_cartItemName productName s) items \<Longrightarrow>
   getItemQuantity_loop E productName items s = Inr (Fin 0)"
  by (induction items) (auto simp: title_differs_def split: sum.splits)

lemma getItemQuantity_loop_first_match:
  "first_match E CartPage_cartItemName productName s items i \<Longrightarrow>
   getItemQuantity_loop E productName items s
     = (case locator_textContent E (Sub_locator (items ! i) CartPage_cartQuantity) s of
          Inl e \<Rightarrow> Inl e
        | Inr quantityText \<Rightarrow> Inr (parseInt_10 (trim_or_zero quantityText)))"
proof (induction items arbitrary: i)
  case Nil
  then show ?case by (simp add: first_match_def)
next
  case (Cons item items)
  show ?case
  proof (cases i)
    case 0
    then show ?thesis using Cons.prems
      by (auto simp: first_match_def title_matches_def split: sum.splits option.splits)
  next
    case (Suc j)
    then have "first_match E CartPage_cartItemName productName s items j"
      and "title_differs E CartPage_cartItemName productName s item"
      using Cons.prems by (simp_all add: first_match_def)
    then show ?thesis using Cons.IH [of j] Suc
      by (auto simp: title_differs_def split: sum.splits)
  qed
qed

text \<open>
  Claim C10. With \<open>items\<close> the lines of the cart, as \<^verbatim>\<open>all()\<close> returns them:
  \<^verbatim>\<open>getItemQuantity\<close> returns 0 when every title is read and none, trimmed, equals the
  name, where \<^verbatim>\<open>removeItemByName\<close> throws its not-found error; when line \<open>i\<close> is the first
  whose trimmed title equals the name and its quantity text is read, it returns what
  \<^verbatim>\<open>parseInt\<close> reads from the trimmed quantity text, and 0 when that text is \<^verbatim>\<open>null\<close>.
\<close>

theorem getItemQuantity_contract:
  assumes "locator_all E (Page_locator CartPage_cartItems) s = Inr items"
  shows
  \<open>(list_all (title_differs E CartPage_cartItemName productName s) items \<longrightarrow>
      getItemQuantity E productName s = Inr (Fin 0) \<and>
      removeItemByName E productName s
        = Inl (Error (''Product "'' @ productName @ ''" not found in cart for removal''))) \<and>
   (first_match E CartPage_cartItemName productName s items i \<and>
    locator_textContent E (Sub_locator (items ! i) CartPage_cartQuantity) s = Inr (Some quantityText)
      \<longrightarrow> getItemQuantity E productName s
            = Inr (parseInt_10 (if trim quantityText = [] then ''0'' else trim quantityText))) \<and>
   (first_match E CartPage_cartItemName productName s items i \<and>
    locator_textContent E (Sub_locator (items ! i) CartPage_cartQuantity) s = Inr None
      \<longrightarrow> getItemQuantity E productName s = Inr (Fin 0))\<close>
  using assms
  by (auto simp: getItemQuantity_def removeItemByName_def getItemQuantity_loop_no_match
      getItemQuantity_loop_first_match click_first_named_not_found trim_or_zero_def
      parseInt_10_zero)

text \<open>
  The theorem in a cart session with two lines: the quantity of the bike light, which
  reads \<^verbatim>\<open>" 2 "\<close>, is 2; the quantity of a product that is not in the cart is 0.
\<close>

theorem getItemQuantity_witness:
  "getItemQuantity cart_engine ''Sauce Labs Bike Light''
       [(''Sauce Labs Backpack'', ''1''), (''Sauce Labs Bike Light'', '' 2 '')]
     = Inr (Fin 2) \<and>
   getItemQuantity cart_engine ''Sauce Labs Onesie''
       [(''Sauce Labs Backpack'', ''1''), (''Sauce Labs Bike Light'', '' 2 '')]
     = Inr (Fin 0)"
proof -
  let ?crt = "\<lambda>i. Nth_locator (Page_locator CartPage_cartItems) i"
  let ?items = "[?crt 0, ?crt 1]"
  let ?lines = "[(''Sauce Labs Backpack'', ''1''), (''Sauce Labs Bike Light'', '' 2 '')]"
  have crt: "locator_all cart_engine (Page_locator CartPage_cartItems) ?lines = Inr ?items"
    by (rule cart_engine_all)
  have found: "first_match cart_engine CartPage_cartItemName ''Sauce Labs Bike Light'' ?lines
                 ?items 1"
    by (simp add: first_match_def title_matches_def title_differs_def cart_engine_def eval_string)
  have quantity: "locator_textContent cart_engine (Sub_locator (?items ! 1) CartPage_cartQuantity)
                    ?lines = Inr (Some '' 2 '')"
    by (simp add: cart_engine_def CartPage_cartQuantity_def CartPage_cartItemName_def)
  have none: "list_all (title_differs cart_engine CartPage_cartItemName ''Sauce Labs Onesie'' ?lines)
                ?items"
    by (simp add: title_differs_def cart_engine_def eval_string)
  have "getItemQuantity cart_engine ''Sauce Labs Bike Light'' ?lines
          = Inr (parseInt_10 (if trim '' 2 '' = [] then ''0'' else trim '' 2 ''))"
    using getItemQuantity_contract [OF crt, of "''Sauce Labs Bike Light''" 1 "'' 2 ''"]
      found quantity by blast
  moreover have "getItemQuantity cart_engine ''Sauce Labs Onesie'' ?lines = Inr (Fin 0)"
    using getItemQuantity_contract [OF crt, of "''Sauce Labs Onesie''"] none by blast
  ultimately show ?thesis
    by (simp add: parseInt_10_def eval_string round_double_numeral)
qed

section \<open>CartPage: removeAllItems\<close>

text \<open>
  \<^verbatim>\<open>removeItemByIndex(0)\<close> in terms of the calls that reach the engine: the cart lines are
  listed, and the remove button inside the first one is clicked; with no line listed the
  call throws its own error, whose message names the index \<^verbatim>\<open>0\<close>.
\<close>

lemma removeItemByIndex_0:
  \<open>removeItemByIndex toString E (Fin 0) s =
     (case locator_all E (Page_locator ''.cart_item'') s of
        Inl e \<Rightarrow> Inl e
      | Inr [] \<Rightarrow> Inl (Error ''Cart item index 0 is out of range'')
      | Inr (item # _) \<Rightarrow> locator_click E (Sub_locator item ''button[id^="remove"]'') s)\<close>
  by (simp add: removeItemByIndex_def CartPage_cartItems_def Number_toString_def js_ge_def
      digit_char_def split: sum.splits list.splits)

text \<open>
  \<^verbatim>\<open>removeItemByIndex\<close> on a cart of two lines: the index 1 removes the second line; the
  indices 2, -1 and NaN are out of range, and so is \<open>10\<^sup>2\<^sup>1\<close>, whose text is the one of the
  number's string conversion; the index 1.5 is inside the range and denotes no element.
\<close>

lemma removeItemByIndex_examples:
  "removeItemByIndex toString timed_cart_engine (Fin 1) ([''a'', ''b''], []) = Inr ([''a''], [])"
  "removeItemByIndex toString timed_cart_engine (Fin 2) ([''a'', ''b''], [])
     = Inl (Error ''Cart item index 2 is out of range'')"
  "removeItemByIndex toString timed_cart_engine (Fin (- 1)) ([''a'', ''b''], [])
     = Inl (Error ''Cart item index -1 is out of range'')"
  "removeItemByIndex toString timed_cart_engine NaN ([''a'', ''b''], [])
     = Inl (Error ''Cart item index NaN is out of range'')"
  "removeItemByIndex toString timed_cart_engine (Fin (10 ^ 21)) ([''a'', ''b''], [])
     = Inl (Error (''Cart item index '' @ toString (10 ^ 21) @ '' is out of range''))"
  by (simp_all add: removeItemByIndex_def timed_cart_engine_def Number_toString_def js_ge_def
      digit_char_def)

lemma removeItemByIndex_fraction:
  "removeItemByIndex toString timed_cart_engine (Fin (3 / 2)) ([''a'', ''b''], [])
     = Inl (TypeError ''Cannot read properties of undefined (reading 'locator')'')"
proof -
  have "\<lfloor>3 / 2 :: rat\<rfloor> = 1" by (rule floor_unique) simp_all
  then show ?thesis
    by (simp add: removeItemByIndex_def timed_cart_engine_def js_ge_def)
qed

lemma remove_and_wait_Suc:
  "remove_and_wait E (Suc k) s =
     (case removeItemByIndex toString E (Fin 0) s of
        Inl e \<Rightarrow> Inl e
      | Inr s1 \<Rightarrow>
          (case page_waitForTimeout E 300 s1 of
             Inl e \<Rightarrow> Inl e
           | Inr s2 \<Rightarrow> remove_and_wait E k s2))"
  by (simp add: removeItemByIndex_0 split: sum.splits list.splits)

lemma removeAllItems_loop_returns:
  assumes decreases:
    "\<And>s n. CartPage_getCartItemCount E s = Inr n \<Longrightarrow> 0 < n \<Longrightarrow>
       \<exists>s1 s2 m. removeItemByIndex toString E (Fin 0) s = Inr s1 \<and>
                 page_waitForTimeout E 300 s1 = Inr s2 \<and>
                 CartPage_getCartItemCount E s2 = Inr m \<and> m < n"
  shows "CartPage_getCartItemCount E s = Inr n \<Longrightarrow>
         \<exists>s' k. k \<le> n \<and> removeAllItems_loop toString E n s = Some (Inr s') \<and>
                CartPage_getCartItemCount E s' = Inr 0 \<and> remove_and_wait E k s = Inr s'"
proof (induction n arbitrary: s rule: less_induct)
  case (less n)
  show ?case
  proof (cases "n = 0")
    case True
    then have "removeAllItems_loop toString E n s = Some (Inr s)"
      by (subst removeAllItems_loop.simps) simp
    moreover have "remove_and_wait E 0 s = Inr s" by simp
    ultimately show ?thesis using less.prems True by blast
  next
    case False
    then have pos: "0 < n" by simp
    obtain s1 s2 m where step: "removeItemByIndex toString E (Fin 0) s = Inr s1"
      "page_waitForTimeout E 300 s1 = Inr s2" "CartPage_getCartItemCount E s2 = Inr m" "m < n"
      using decreases [OF less.prems pos] by blast
    obtain s' k where rest: "k \<le> m" "removeAllItems_loop toString E m s2 = Some (Inr s')"
      "CartPage_getCartItemCount E s' = Inr 0" "remove_and_wait E k s2 = Inr s'"
      using less.IH [OF step(4) step(3)] by blast
    have "removeAllItems_loop toString E n s = removeAllItems_loop toString E m s2"
      using pos step by (subst removeAllItems_loop.simps) (simp add: waitForTimeout_def)
    moreover have "remove_and_wait E (Suc k) s = remove_and_wait E k s2"
      using step by (simp only: remove_and_wait_Suc [of E k s toString]) simp
    moreover have "Suc k \<le> n" using rest(1) step(4) by simp
    ultimately show ?thesis using rest by metis
  qed
qed

text \<open>
  Claim C4. Suppose that the first read of the number of cart lines succeeds, and that
  whenever that number is read as positive, \<^verbatim>\<open>removeItemByIndex(0)\<close> succeeds, the wait
  of 300 ms that the engine then makes succeeds, and the number read afterwards is
  smaller. Then \<^verbatim>\<open>removeAllItems\<close> returns, without an error; in the state it returns
  \<^verbatim>\<open>getCartItemCount\<close> reports zero, which is the answer of the engine's \<^verbatim>\<open>count()\<close> on the
  cart lines; and that state is reached by some number \<open>k\<close> of rounds, at most the number of
  lines first read, each round being the engine's click on the remove button of the line
  at index 0 followed by the engine's \<^verbatim>\<open>page.waitForTimeout(300)\<close>.
\<close>

theorem removeAllItems_terminates_empty:
  assumes first_read: "CartPage_getCartItemCount E s = Inr n"
    and decreases:
      "\<And>s n. CartPage_getCartItemCount E s = Inr n \<Longrightarrow> 0 < n \<Longrightarrow>
         \<exists>s1 s2 m. removeItemByIndex toString E (Fin 0) s = Inr s1 \<and>
                   page_waitForTimeout E 300 s1 = Inr s2 \<and>
                   CartPage_getCartItemCount E s2 = Inr m \<and> m < n"
  shows "\<exists>s' k. k \<le> n \<and> removeAllItems toString E s = Some (Inr s') \<and>
                CartPage_getCartItemCount E s' = Inr 0 \<and>
                locator_count E (Page_locator ''.cart_item'') s' = Inr 0 \<and>
                remove_and_wait E k s = Inr s'"
proof -
  obtain s' k where run: "k \<le> n" "removeAllItems_loop toString E n s = Some (Inr s')"
    "CartPage_getCartItemCount E s' = Inr 0" "remove_and_wait E k s = Inr s'"
    using removeAllItems_loop_returns [of E toString s n, OF decreases first_read] by blast
  have "removeAllItems toString E s = Some (Inr s')"
    using first_read run(2) by (simp add: removeAllItems_def)
  moreover have "locator_count E (Page_locator ''.cart_item'') s' = Inr 0"
    using run(3)
    by (simp add: CartPage_getCartItemCount_def getElementCount_def CartPage_cartItems_def)
  ultimately show ?thesis using run(1,3,4) by blast
qed

text \<open>
  In a timed cart session every removal succeeds and takes one line away, so the
  precondition holds. \<^verbatim>\<open>removeAllItems\<close> empties a cart of three lines in three rounds,
  and the engine has waited 300 ms three times. The string conversion of the numbers
  from \<open>2\<^sup>5\<^sup>3\<close> on plays no part at the index 0; it is taken to answer \<^verbatim>\<open>1e+21\<close>.
\<close>

lemma timed_cart_engine_count:
  "CartPage_getCartItemCount timed_cart_engine (lines, waits) = Inr (length lines)"
  by (simp add: CartPage_getCartItemCount_def getElementCount_def timed_cart_engine_def)

lemma timed_cart_engine_remove:
  "lines \<noteq> [] \<Longrightarrow>
   removeItemByIndex toString timed_cart_engine (Fin 0) (lines, waits) = Inr (tl lines, waits)"
  by (cases lines)
    (simp_all add: removeItemByIndex_0 timed_cart_engine_def upt_conv_Cons del: upt_Suc)

lemma timed_cart_engine_wait:
  "page_waitForTimeout timed_cart_engine ms (lines, waits) = Inr (lines, waits @ [ms])"
  by (simp add: timed_cart_engine_def)

lemma timed_cart_engine_decreases:
  assumes "CartPage_getCartItemCount timed_cart_engine s = Inr n" and "0 < n"
  shows "\<exists>s1 s2 m. removeItemByIndex toString timed_cart_engine (Fin 0) s = Inr s1 \<and>
                   page_waitForTimeout timed_cart_engine 300 s1 = Inr s2 \<and>
                   CartPage_getCartItemCount timed_cart_engine s2 = Inr m \<and> m < n"
proof -
  obtain lines waits where s: "s = (lines, waits)" by (cases s)
  have n: "n = length lines" using assms(1) by (simp add: s timed_cart_engine_count)
  then have ne: "lines \<noteq> []" using assms(2) by auto
  have "removeItemByIndex toString timed_cart_engine (Fin 0) s = Inr (tl lines, waits)"
    using ne by (simp add: s timed_cart_engine_remove)
  moreover have "page_waitForTimeout timed_cart_engine 300 (tl lines, waits)
                   = Inr (tl lines, waits @ [300])"
    by (rule timed_cart_engine_wait)
  moreover have "CartPage_getCartItemCount timed_cart_engine (tl lines, waits @ [300])
                   = Inr (length lines - 1)"
    by (simp add: timed_cart_engine_count)
  moreover have "length lines - 1 < n" using n assms(2) by simp
  ultimately show ?thesis by blast
qed

lemma timed_cart_engine_rounds:
  "remove_and_wait timed_cart_engine k (lines, waits)
     = (if k \<le> length lines then Inr (drop k lines, waits @ replicate k 300)
        else Inl (Error ''Cart item index 0 is out of range''))"
proof (induction k arbitrary: lines waits)
  case 0
  then show ?case by simp
next
  case (Suc k)
  show ?case
  proof (cases lines)
    case Nil
    then show ?thesis by (simp add: timed_cart_engine_def)
  next
    case (Cons a rest)
    have "remove_and_wait timed_cart_engine (Suc k) (lines, waits)
            = remove_and_wait timed_cart_engine k (rest, waits @ [300])"
      using Cons
      by (simp add: remove_and_wait_Suc [of _ _ _ "\<lambda>q. []"] timed_cart_engine_remove
          timed_cart_engine_wait del: remove_and_wait.simps)
    then show ?thesis
      using Cons by (simp add: Suc.IH replicate_append_same del: remove_and_wait.simps)
  qed
qed

theorem removeAllItems_witness:
  "removeAllItems (\<lambda>q. ''1e+21'') timed_cart_engine
     ([''Sauce Labs Backpack'', ''Sauce Labs Bike Light'', ''Sauce Labs Bolt T-Shirt''], [])
   = Some (Inr ([], [300, 300, 300]))"
proof -
  let ?lines = "[''Sauce Labs Backpack'', ''Sauce Labs Bike Light'', ''Sauce Labs Bolt T-Shirt'']"
  have "CartPage_getCartItemCount timed_cart_engine (?lines, []) = Inr 3"
    by (simp add: timed_cart_engine_count)
  then obtain s' k where s': "k \<le> 3"
    "removeAllItems (\<lambda>q. ''1e+21'') timed_cart_engine (?lines, []) = Some (Inr s')"
    "CartPage_getCartItemCount timed_cart_engine s' = Inr 0"
    "remove_and_wait timed_cart_engine k (?lines, []) = Inr s'"
    using removeAllItems_terminates_empty [of timed_cart_engine "(?lines, [])" 3 "\<lambda>q. ''1e+21''"]
      timed_cart_engine_decreases
    by blast
  have rounds: "s' = (drop k ?lines, replicate k 300)"
    using s'(1,4) by (simp add: timed_cart_engine_rounds)
  then have "length (drop k ?lines) = 0"
    using s'(3) by (simp add: timed_cart_engine_count)
  then have "k = 3" using s'(1) by simp
  then have "s' = ([], [300, 300, 300])"
    using rounds by (simp add: numeral_3_eq_3)
  then show ?thesis using s'(2) by simp
qed

section \<open>helpers.ts: retry\<close>

subsection \<open>The counter of attempts\<close>

lemma js_le_Fin [simp]: "js_le (Fin a) (Fin b) = (a \<le> b)"
  by (auto simp: js_le_def)

lemma js_lt_le: "js_lt a b \<Longrightarrow> js_le a b"
  by (cases a; cases b) (simp_all add: js_le_def)

text \<open>The integers up to \<open>2\<^sup>5\<^sup>3\<close> are doubles.\<close>

lemma round_double_of_int_le:
  assumes "\<bar>m\<bar> \<le> 2 ^ 53"
  shows "round_double (of_int m) = Fin (of_int m)"
proof (cases "\<bar>m\<bar> < 2 ^ 53")
  case True
  then show ?thesis by (rule round_double_of_int)
next
  case False
  then have m: "m = 2 ^ 53 \<or> m = - (2 ^ 53)" using assms by linarith
  have "round_double (of_int (2 ^ 52) * pow2 1) = Fin (of_int (2 ^ 52) * pow2 1)"
    by (rule round_double_exact) (simp_all add: pow2_def)
  moreover have "round_double (of_int (- (2 ^ 52)) * pow2 1) = Fin (of_int (- (2 ^ 52)) * pow2 1)"
    by (rule round_double_exact) (simp_all add: pow2_def)
  ultimately show ?thesis using m by (auto simp: pow2_def)
qed

text \<open>\<^verbatim>\<open>attempt++\<close> is exact as long as the counter is below \<open>2\<^sup>5\<^sup>3\<close>.\<close>

lemma attempt_increment:
  assumes "0 \<le> m" and "m < 2 ^ 53"
  shows "js_add (Fin (of_int m)) (Fin 1) = Fin (of_int (m + 1))"
proof -
  have "round_double (of_int (m + 1)) = Fin (of_int (m + 1))"
    using assms by (intro round_double_of_int_le) simp
  then show ?thesis by simp
qed

subsection \<open>One turn of the loop\<close>

lemma retry_from_success:
  assumes "js_le attempt maxAttempts" and "fst (fn s) = Inr result"
  shows "retry_from fn setTimeout maxAttempts delay attempt lastError s
           = Some (Inr result, snd (fn s))"
  using assms by (subst retry_from.simps) (simp add: case_prod_beta split: sum.splits)

lemma retry_from_failure_again:
  assumes "js_lt attempt maxAttempts" and "fst (fn s) = Inl e"
  shows "retry_from fn setTimeout maxAttempts delay attempt lastError s
           = retry_from fn setTimeout maxAttempts delay (js_add attempt (Fin 1)) e
               (setTimeout delay (snd (fn s)))"
  using assms
  by (subst retry_from.simps) (simp add: case_prod_beta js_lt_le sleep_def split: sum.splits)

lemma retry_from_failure_last:
  assumes "0 \<le> N" and "N < 2 ^ 53" and "fst (fn s) = Inl e"
  shows "retry_from fn setTimeout (Fin (of_int N)) delay (Fin (of_int N)) lastError s
           = Some (Inl (if truthy e then e else JS_error (Error ''Retry failed'')), snd (fn s))"
proof -
  have "retry_from fn setTimeout (Fin (of_int N)) delay (Fin (of_int N)) lastError s
          = retry_from fn setTimeout (Fin (of_int N)) delay (js_add (Fin (of_int N)) (Fin 1)) e
              (snd (fn s))"
    using assms(3)
    by (subst retry_from.simps) (simp add: case_prod_beta split: sum.splits)
  also have "\<dots> = retry_from fn setTimeout (Fin (of_int N)) delay (Fin (of_int (N + 1))) e
                      (snd (fn s))"
    by (simp only: attempt_increment [OF assms(1,2)])
  also have "\<dots> = Some (Inl (if truthy e then e else JS_error (Error ''Retry failed'')),
                         snd (fn s))"
    by (subst retry_from.simps) simp
  finally show ?thesis .
qed

text \<open>
  With a bound below 1, and with NaN as the bound, no attempt is made, and \<^verbatim>\<open>retry\<close> throws
  \<^verbatim>\<open>Error('Retry failed')\<close> at once.
\<close>

lemma retry_no_attempt:
  assumes "\<not> js_le (Fin 1) maxAttempts"
  shows "retry fn setTimeout maxAttempts delay s
           = Some (Inl (JS_error (Error ''Retry failed'')), s)"
  using assms unfolding retry_def by (subst retry_from.simps) simp

subsection \<open>The run of attempts\<close>

lemma retry_after_failures:
  assumes "int k < N" and "N < 2 ^ 53"
    and "\<forall>j<k. \<exists>e. fst (fn (before_attempt fn setTimeout delay s j)) = Inl e"
  shows "\<exists>lastError.
           retry fn setTimeout (Fin (of_int N)) delay s
             = retry_from fn setTimeout (Fin (of_int N)) delay (Fin (of_int (int k + 1))) lastError
                 (before_attempt fn setTimeout delay s k)"
  using assms(1,3)
proof (induction k)
  case 0
  then show ?case by (auto simp: retry_def)
next
  case (Suc k)
  have k: "int k < N" using Suc.prems(1) by simp
  have fails: "\<forall>j<k. \<exists>e. fst (fn (before_attempt fn setTimeout delay s j)) = Inl e"
    using Suc.prems(2) by simp
  obtain lastError where eq:
    "retry fn setTimeout (Fin (of_int N)) delay s
       = retry_from fn setTimeout (Fin (of_int N)) delay (Fin (of_int (int k + 1))) lastError
           (before_attempt fn setTimeout delay s k)"
    using Suc.IH [OF k fails] by blast
  obtain e where e: "fst (fn (before_attempt fn setTimeout delay s k)) = Inl e"
    using Suc.prems(2) by blast
  have lt: "js_lt (Fin (of_int (int k + 1))) (Fin (of_int N))"
    using Suc.prems(1) by simp
  have inc: "js_add (Fin (of_int (int k + 1))) (Fin 1) = Fin (of_int (int (Suc k) + 1))"
    using attempt_increment [of "int k + 1"] Suc.prems(1) assms(2) by simp
  have "retry fn setTimeout (Fin (of_int N)) delay s
       = retry_from fn setTimeout (Fin (of_int N)) delay
           (js_add (Fin (of_int (int k + 1))) (Fin 1)) e
           (setTimeout delay (snd (fn (before_attempt fn setTimeout delay s k))))"
    by (simp only: eq
        retry_from_failure_again
          [of "Fin (of_int (int k + 1))" "Fin (of_int N)" fn
              "before_attempt fn setTimeout delay s k" e, OF lt e])
  then have "retry fn setTimeout (Fin (of_int N)) delay s
       = retry_from fn setTimeout (Fin (of_int N)) delay (Fin (of_int (int (Suc k) + 1))) e
           (before_attempt fn setTimeout delay s (Suc k))"
    by (simp only: inc before_attempt.simps)
  then show ?case by (rule exI)
qed

lemma retry_first_success:
  assumes "int k < N" and "N < 2 ^ 53"
    and "\<forall>j<k. \<exists>e. fst (fn (before_attempt fn setTimeout delay s j)) = Inl e"
    and "fst (fn (before_attempt fn setTimeout delay s k)) = Inr result"
  shows "retry fn setTimeout (Fin (of_int N)) delay s
           = Some (Inr result, snd (fn (before_attempt fn setTimeout delay s k)))"
proof -
  obtain lastError where
    "retry fn setTimeout (Fin (of_int N)) delay s
       = retry_from fn setTimeout (Fin (of_int N)) delay (Fin (of_int (int k + 1))) lastError
           (before_attempt fn setTimeout delay s k)"
    using retry_after_failures [OF assms(1,2,3)] by blast
  moreover have "js_le (Fin (of_int (int k + 1))) (Fin (of_int N))"
    using assms(1) by simp
  ultimately show ?thesis
    using assms(4) by (simp add: retry_from_success)
qed

lemma retry_all_fail:
  assumes "int (Suc k) = N" and "N < 2 ^ 53"
    and "\<forall>j<k. \<exists>e. fst (fn (before_attempt fn setTimeout delay s j)) = Inl e"
    and "fst (fn (before_attempt fn setTimeout delay s k)) = Inl e"
  shows "retry fn setTimeout (Fin (of_int N)) delay s
           = Some (Inl (if truthy e then e else JS_error (Error ''Retry failed'')),
                   snd (fn (before_attempt fn setTimeout delay s k)))"
proof -
  have "int k < N" using assms(1) by simp
  then obtain lastError where
    "retry fn setTimeout (Fin (of_int N)) delay s
       = retry_from fn setTimeout (Fin (of_int N)) delay (Fin (of_int (int k + 1))) lastError
           (before_attempt fn setTimeout delay s k)"
    using retry_after_failures [OF _ assms(2,3)] by blast
  moreover have "int k + 1 = N" using assms(1) by simp
  moreover have "0 \<le> N" using assms(1) by simp
  ultimately show ?thesis
    using retry_from_failure_last
      [of N fn "before_attempt fn setTimeout delay s k" e setTimeout delay lastError]
      assms(2,4)
    by simp
qed

lemma retry_returns:
  assumes "1 \<le> N" and "N < 2 ^ 53"
  shows "\<exists>n out. 1 \<le> n \<and> int n \<le> N \<and>
           retry fn setTimeout (Fin (of_int N)) delay s
             = Some (out, snd (fn (before_attempt fn setTimeout delay s (n - 1))))"
proof -
  define failed where
    "failed j = (\<exists>e. fst (fn (before_attempt fn setTimeout delay s j)) = Inl e)" for j
  define M where "M = nat N"
  have M: "int M = N" "0 < M" using assms(1) by (simp_all add: M_def)
  show ?thesis
  proof (cases "\<forall>j<M. failed j")
    case True
    obtain k where k: "M = Suc k" using M(2) by (cases M) simp_all
    then obtain e where "fst (fn (before_attempt fn setTimeout delay s k)) = Inl e"
      using True by (auto simp: failed_def)
    moreover have "\<forall>j<k. \<exists>e. fst (fn (before_attempt fn setTimeout delay s j)) = Inl e"
      using True k by (simp add: failed_def)
    moreover have "int (Suc k) = N" using M(1) k by simp
    ultimately have "retry fn setTimeout (Fin (of_int N)) delay s
             = Some (Inl (if truthy e then e else JS_error (Error ''Retry failed'')),
                     snd (fn (before_attempt fn setTimeout delay s k)))"
      using retry_all_fail [of k N fn setTimeout delay s e] assms(2) by blast
    then show ?thesis using M(1) k by (intro exI [of _ "Suc k"]) simp
  next
    case False
    then obtain i where "i < M" "\<not> failed i" by blast
    define k where "k = (LEAST i. \<not> failed i)"
    have nk: "\<not> failed k" and least: "\<forall>j<k. failed j" and kM: "k < M"
    proof -
      show "\<not> failed k" unfolding k_def using \<open>\<not> failed i\<close> by (rule LeastI)
      show "\<forall>j<k. failed j" unfolding k_def using not_less_Least by blast
      have "k \<le> i" unfolding k_def using \<open>\<not> failed i\<close> by (rule Least_le)
      then show "k < M" using \<open>i < M\<close> by simp
    qed
    obtain result where "fst (fn (before_attempt fn setTimeout delay s k)) = Inr result"
      using nk by (cases "fst (fn (before_attempt fn setTimeout delay s k))") (auto simp: failed_def)
    moreover have "\<forall>j<k. \<exists>e. fst (fn (before_attempt fn setTimeout delay s j)) = Inl e"
      using least by (simp add: failed_def)
    moreover have "int k < N" using kM M(1) by simp
    ultimately have "retry fn setTimeout (Fin (of_int N)) delay s
             = Some (Inr result, snd (fn (before_attempt fn setTimeout delay s k)))"
      using assms(2) by (simp add: retry_first_success)
    then show ?thesis using kM M(1) by (intro exI [of _ "Suc k"]) simp
  qed
qed

subsection \<open>The record of the calls\<close>

lemma attempts_log_Suc:
  "attempts_log delay (Suc k) = concat (replicate k [Invoke_fn, Sleep delay]) @ [Invoke_fn]"
  by (induction k) simp_all

lemma attempts_log_invocations: "invocations (attempts_log delay n) = n"
  unfolding invocations_def by (induction delay n rule: attempts_log.induct) simp_all

lemma attempts_log_last: "last (attempts_log delay (Suc n)) = Invoke_fn"
  by (simp add: attempts_log_Suc)

lemma concat_replicate_snoc:
  "concat (replicate (Suc k) xs) = concat (replicate k xs) @ xs"
  by (induction k) simp_all

lemma before_attempt_recorded:
  "before_attempt (recorded fn) (recorded_timer setTimeout) delay (s, calls) k
     = (before_attempt fn setTimeout delay s k,
        calls @ concat (replicate k [Invoke_fn, Sleep delay]))"
proof (induction k)
  case 0
  then show ?case by simp
next
  case (Suc k)
  have "before_attempt (recorded fn) (recorded_timer setTimeout) delay (s, calls) (Suc k)
          = recorded_timer setTimeout delay
              (snd (recorded fn (before_attempt fn setTimeout delay s k,
                                 calls @ concat (replicate k [Invoke_fn, Sleep delay]))))"
    by (simp only: before_attempt.simps Suc.IH)
  also have "\<dots> = (before_attempt fn setTimeout delay s (Suc k),
                    calls @ concat (replicate (Suc k) [Invoke_fn, Sleep delay]))"
    by (simp only: concat_replicate_snoc) (simp add: recorded_def recorded_timer_def)
  finally show ?case .
qed

lemma after_attempt_recorded:
  "snd (recorded fn (before_attempt (recorded fn) (recorded_timer setTimeout) delay (s, []) k))
     = (snd (fn (before_attempt fn setTimeout delay s k)), attempts_log delay (Suc k))"
  by (simp only: before_attempt_recorded attempts_log_Suc) (simp add: recorded_def)

subsection \<open>The claim\<close>

text \<open>
  Claim C7, as stated, at a function that rejects with \<^verbatim>\<open>undefined\<close> and at a bound that
  is not an integer. With two attempts allowed, both attempts of \<open>rejects_undefined\<close>
  throw \<^verbatim>\<open>undefined\<close>, and \<^verbatim>\<open>retry\<close> throws a new \<^verbatim>\<open>Error('Retry failed')\<close>, which is not
  the value thrown by the last attempt. With \<^verbatim>\<open>maxAttempts = 2.5\<close> the function \<open>flaky\<close> is
  called twice, both calls throw, and \<^verbatim>\<open>retry\<close> sleeps after the second, final attempt
  before it throws: the last call in the world it leaves is a sleep.
\<close>

theorem retry_counterexample:
  "retry rejects_undefined timer (Fin 2) (Fin 1000) []
     = Some (Inl (JS_error (Error ''Retry failed'')), [Invoke_fn, Sleep (Fin 1000), Invoke_fn]) \<and>
   fst (rejects_undefined [Invoke_fn, Sleep (Fin 1000)]) = Inl JS_undefined \<and>
   JS_error (Error ''Retry failed'') \<noteq> JS_undefined \<and>
   retry flaky timer (Fin (5 / 2)) (Fin 1000) []
     = Some (Inl (JS_error (Error ''attempt 2 failed'')),
             [Invoke_fn, Sleep (Fin 1000), Invoke_fn, Sleep (Fin 1000)])"
proof -
  have two: "round_double 2 = Fin 2"
    using round_double_of_int [of 2] by simp
  have three: "round_double 3 = Fin 3"
    using round_double_of_int [of 3] by simp
  have "retry rejects_undefined timer (Fin 2) (Fin 1000) []
     = Some (Inl (JS_error (Error ''Retry failed'')), [Invoke_fn, Sleep (Fin 1000), Invoke_fn])"
    unfolding retry_def
    apply (subst retry_from.simps)
    apply (simp add: rejects_undefined_def timer_def sleep_def two)
    apply (subst retry_from.simps)
    apply (simp add: rejects_undefined_def timer_def sleep_def three)
    apply (subst retry_from.simps)
    apply simp
    done
  moreover have "retry flaky timer (Fin (5 / 2)) (Fin 1000) []
     = Some (Inl (JS_error (Error ''attempt 2 failed'')),
             [Invoke_fn, Sleep (Fin 1000), Invoke_fn, Sleep (Fin 1000)])"
    unfolding retry_def
    apply (subst retry_from.simps)
    apply (simp add: flaky_def invocations_def timer_def sleep_def two)
    apply (subst retry_from.simps)
    apply (simp add: flaky_def invocations_def timer_def sleep_def three digit_char_def)
    apply (subst retry_from.simps)
    apply simp
    done
  ultimately show ?thesis by (simp add: rejects_undefined_def)
qed

text \<open>
  Claim C7, amended. Let \<open>maxAttempts\<close> be an integer \<open>N\<close> with \<open>1 \<le> N < 2\<^sup>5\<^sup>3\<close>. If attempt
  \<open>k + 1\<close> is the first that succeeds, with \<open>k\<close> below \<open>N\<close>, then \<^verbatim>\<open>retry\<close> returns the result
  of that attempt, in the world left by \<open>k + 1\<close> calls of \<open>fn\<close> with a timer of \<open>delay\<close>
  milliseconds between any two of them. If all \<open>N\<close> attempts throw, \<^verbatim>\<open>retry\<close> throws the
  value thrown by the last one when that value is true for \<^verbatim>\<open>||\<close>, and a new
  \<^verbatim>\<open>Error('Retry failed')\<close> when it is not; the world is the one left by \<open>N\<close> calls with a
  timer between any two of them and none after the last. Every run returns or throws, in
  a world left by some number \<open>n\<close> of calls of \<open>fn\<close>, at least one and at most \<open>N\<close>, with a
  timer between any two of them and none after the last. And in the world that records
  the calls, the record of the run is that of \<open>n\<close> attempts: it holds \<open>n\<close> calls of \<open>fn\<close>, at
  least one and at most \<open>N\<close>, a sleep of \<open>delay\<close> between any two consecutive calls, and it
  ends with a call of \<open>fn\<close>, not with a sleep.
\<close>

theorem retry_contract:
  assumes "1 \<le> N" and "N < 2 ^ 53"
  shows
    "(int k < N \<and>
      (\<forall>j<k. \<exists>e. fst (fn (before_attempt fn setTimeout delay s j)) = Inl e) \<and>
      fst (fn (before_attempt fn setTimeout delay s k)) = Inr result
        \<longrightarrow> retry fn setTimeout (Fin (of_int N)) delay s
              = Some (Inr result, snd (fn (before_attempt fn setTimeout delay s k)))) \<and>
     (int (Suc k) = N \<and>
      (\<forall>j<k. \<exists>e. fst (fn (before_attempt fn setTimeout delay s j)) = Inl e) \<and>
      fst (fn (before_attempt fn setTimeout delay s k)) = Inl e
        \<longrightarrow> retry fn setTimeout (Fin (of_int N)) delay s
              = Some (Inl (if truthy e then e else JS_error (Error ''Retry failed'')),
                      snd (fn (before_attempt fn setTimeout delay s k)))) \<and>
     (\<exists>n out. 1 \<le> n \<and> int n \<le> N \<and>
          retry fn setTimeout (Fin (of_int N)) delay s
            = Some (out, snd (fn (before_attempt fn setTimeout delay s (n - 1))))) \<and>
     (\<exists>n out s'. 1 \<le> n \<and> int n \<le> N \<and>
          retry (recorded fn) (recorded_timer setTimeout) (Fin (of_int N)) delay (s, [])
            = Some (out, s', attempts_log delay n) \<and>
          invocations (attempts_log delay n) = n \<and>
          last (attempts_log delay n) = Invoke_fn)"
proof (intro conjI impI)
  assume "int k < N \<and>
      (\<forall>j<k. \<exists>e. fst (fn (before_attempt fn setTimeout delay s j)) = Inl e) \<and>
      fst (fn (before_attempt fn setTimeout delay s k)) = Inr result"
  then show "retry fn setTimeout (Fin (of_int N)) delay s
              = Some (Inr result, snd (fn (before_attempt fn setTimeout delay s k)))"
    using assms(2) by (simp add: retry_first_success)
next
  assume "int (Suc k) = N \<and>
      (\<forall>j<k. \<exists>e. fst (fn (before_attempt fn setTimeout delay s j)) = Inl e) \<and>
      fst (fn (before_attempt fn setTimeout delay s k)) = Inl e"
  then show "retry fn setTimeout (Fin (of_int N)) delay s
              = Some (Inl (if truthy e then e else JS_error (Error ''Retry failed'')),
                      snd (fn (before_attempt fn setTimeout delay s k)))"
    using retry_all_fail [of k N fn setTimeout delay s e] assms(2) by blast
next
  show "\<exists>n out. 1 \<le> n \<and> int n \<le> N \<and>
          retry fn setTimeout (Fin (of_int N)) delay s
            = Some (out, snd (fn (before_attempt fn setTimeout delay s (n - 1))))"
    using assms by (rule retry_returns)
next
  obtain n out where n: "1 \<le> n" "int n \<le> N"
    "retry (recorded fn) (recorded_timer setTimeout) (Fin (of_int N)) delay (s, [])
       = Some (out, snd (recorded fn
            (before_attempt (recorded fn) (recorded_timer setTimeout) delay (s, []) (n - 1))))"
    using retry_returns [OF assms, of "recorded fn" "recorded_timer setTimeout" delay "(s, [])"]
    by (elim exE conjE)
  obtain m where m: "n = Suc m" using n(1) by (cases n) simp_all
  have run: "retry (recorded fn) (recorded_timer setTimeout) (Fin (of_int N)) delay (s, [])
       = Some (out, snd (fn (before_attempt fn setTimeout delay s m)), attempts_log delay n)"
    using n(3) by (simp only: m diff_Suc_1 after_attempt_recorded)
  have count: "invocations (attempts_log delay n) = n"
    by (rule attempts_log_invocations)
  have final: "last (attempts_log delay n) = Invoke_fn"
    by (simp only: m attempts_log_last)
  show "\<exists>n out s'. 1 \<le> n \<and> int n \<le> N \<and>
          retry (recorded fn) (recorded_timer setTimeout) (Fin (of_int N)) delay (s, [])
            = Some (out, s', attempts_log delay n) \<and>
          invocations (attempts_log delay n) = n \<and>
          last (attempts_log delay n) = Invoke_fn"
    using n(1,2) run count final by blast
qed

text \<open>
  The theorem on the function whose first two calls throw, in the world that records the
  calls: with three attempts the third one returns, after two sleeps; with two attempts
  \<^verbatim>\<open>retry\<close> throws the error of the second call, and has slept once, between the two.
\<close>

lemma flaky_attempts:
  "before_attempt flaky timer (Fin 1000) [] 0 = []"
  "before_attempt flaky timer (Fin 1000) [] (Suc 0) = [Invoke_fn, Sleep (Fin 1000)]"
  "before_attempt flaky timer (Fin 1000) [] (Suc (Suc 0))
     = [Invoke_fn, Sleep (Fin 1000), Invoke_fn, Sleep (Fin 1000)]"
  by (simp_all add: flaky_def timer_def)

theorem retry_witness:
  "retry flaky timer (Fin 3) (Fin 1000) []
     = Some (Inr ''done'', [Invoke_fn, Sleep (Fin 1000), Invoke_fn, Sleep (Fin 1000), Invoke_fn]) \<and>
   retry flaky timer (Fin 2) (Fin 1000) []
     = Some (Inl (JS_error (Error ''attempt 2 failed'')), [Invoke_fn, Sleep (Fin 1000), Invoke_fn])"
proof -
  have fail0: "\<forall>j<Suc 0. \<exists>e. fst (flaky (before_attempt flaky timer (Fin 1000) [] j)) = Inl e"
    by (simp add: flaky_def invocations_def)
  have fail1: "\<forall>j<Suc (Suc 0). \<exists>e. fst (flaky (before_attempt flaky timer (Fin 1000) [] j)) = Inl e"
    by (simp add: less_Suc_eq flaky_def invocations_def timer_def)
  have "fst (flaky (before_attempt flaky timer (Fin 1000) [] (Suc (Suc 0)))) = Inr ''done''"
    by (simp only: flaky_attempts) (simp add: flaky_def invocations_def)
  then have "retry flaky timer (Fin (of_int 3)) (Fin 1000) []
      = Some (Inr ''done'', snd (flaky (before_attempt flaky timer (Fin 1000) [] (Suc (Suc 0)))))"
    using retry_contract [of 3 "Suc (Suc 0)" flaky timer "Fin 1000" "[]" "''done''"] fail1
    by simp
  moreover have "fst (flaky (before_attempt flaky timer (Fin 1000) [] (Suc 0)))
                   = Inl (JS_error (Error ''attempt 2 failed''))"
    by (simp only: flaky_attempts) (simp add: flaky_def invocations_def digit_char_def)
  then have "retry flaky timer (Fin (of_int 2)) (Fin 1000) []
      = Some (Inl (JS_error (Error ''attempt 2 failed'')),
              snd (flaky (before_attempt flaky timer (Fin 1000) [] (Suc 0))))"
    using retry_contract [of 2 "Suc 0" flaky timer "Fin 1000" "[]" _ "JS_error (Error ''attempt 2 failed'')"]
      fail0
    by simp
  ultimately show ?thesis
    by (simp add: flaky_def timer_def)
qed

section \<open>Decimal digits and parseFloat\<close>

lemma digit_char_cases:
  assumes "d < 10"
  shows "d = 0 \<or> d = 1 \<or> d = 2 \<or> d = 3 \<or> d = 4 \<or> d = 5 \<or> d = 6 \<or> d = 7 \<or> d = 8 \<or> d = (9::nat)"
  using assms by arith

lemma digit_char_is_digit: "d < 10 \<Longrightarrow> is_digit (digit_char d)"
  using digit_char_cases [of d] by (auto simp: digit_char_def is_digit_def)

lemma digit_value_digit_char: "d < 10 \<Longrightarrow> digit_value (digit_char d) = int d"
  using digit_char_cases [of d] by (auto simp: digit_char_def digit_value_def)

lemma is_digit_not_ws: "is_digit c \<Longrightarrow> \<not> is_ws c"
  by (auto simp: is_digit_def is_ws_def)

lemma is_digit_not_sign: "is_digit c \<Longrightarrow> c \<noteq> CHR ''-'' \<and> c \<noteq> CHR ''+'' \<and> c \<noteq> CHR ''I'' \<and> c \<noteq> CHR ''.''"
  by (auto simp: is_digit_def)

lemma digits_value_snoc: "digits_value (ds @ [c]) = 10 * digits_value ds + digit_value c"
  by (simp add: digits_value_def)

lemma digits_value_append:
  "digits_value (a @ b) = digits_value a * 10 ^ length b + digits_value b"
proof (induction b rule: rev_induct)
  case Nil
  then show ?case by (simp add: digits_value_def)
next
  case (snoc c b)
  have "digits_value (a @ b @ [c]) = 10 * digits_value (a @ b) + digit_value c"
    using digits_value_snoc [of "a @ b" c] by simp
  then show ?case using snoc by (simp add: digits_value_snoc algebra_simps)
qed

declare digits_of.simps [simp del]

lemma digits_of_value: "digits_value (digits_of n) = int n"
proof (induction n rule: digits_of.induct)
  case (1 n)
  show ?case
  proof (cases "n < 10")
    case True
    then show ?thesis
      by (subst digits_of.simps) (simp add: digits_value_def digit_value_digit_char)
  next
    case False
    then have "digits_value (digits_of (n div 10)) = int (n div 10)" using 1 by simp
    moreover have "10 * int (n div 10) + int (n mod 10) = int n"
    proof -
      have "int (10 * (n div 10) + n mod 10) = int n" by simp
      then show ?thesis by (simp only: of_nat_add of_nat_mult of_nat_numeral)
    qed
    ultimately show ?thesis using False
      by (subst digits_of.simps) (simp add: digits_value_snoc digit_value_digit_char)
  qed
qed

lemma digits_of_digits: "list_all is_digit (digits_of n)"
proof (induction n rule: digits_of.induct)
  case (1 n)
  show ?case
  proof (cases "n < 10")
    case True
    then show ?thesis by (subst digits_of.simps) (simp add: digit_char_is_digit)
  next
    case False
    then show ?thesis using 1
      by (subst digits_of.simps) (simp add: digit_char_is_digit)
  qed
qed

lemma digits_of_nonempty: "digits_of n \<noteq> []"
  by (subst digits_of.simps) simp

lemma digits_value_zeros: "digits_value (replicate j (CHR ''0'') @ ds) = digits_value ds"
  using digits_value_append [of "replicate j (CHR ''0'')" ds]
  by (induction j) (simp_all add: digits_value_def digit_value_def)

lemma is_digit_zero: "is_digit (CHR ''0'')"
  by (simp add: is_digit_def)

lemma takeWhile_all: "list_all P xs \<Longrightarrow> takeWhile P xs = xs"
  by (induction xs) simp_all

lemma dropWhile_all: "list_all P xs \<Longrightarrow> dropWhile P xs = []"
  by (induction xs) simp_all

lemma takeWhile_stop: "list_all P xs \<Longrightarrow> \<not> P c \<Longrightarrow> takeWhile P (xs @ c # r) = xs"
  by (induction xs) simp_all

lemma dropWhile_stop: "list_all P xs \<Longrightarrow> \<not> P c \<Longrightarrow> dropWhile P (xs @ c # r) = c # r"
  by (induction xs) simp_all

text \<open>Parsing a decimal numeral of the form digits, point, digits.\<close>

lemma parseFloat_decimal:
  assumes a: "a \<noteq> []" "list_all is_digit a" and b: "list_all is_digit b"
  shows "parseFloat (a @ ''.'' @ b)
           = round_double (of_int (digits_value a) + of_int (digits_value b) / 10 ^ length b)"
proof -
  define s where "s = a @ CHR ''.'' # b"
  obtain c a' where c: "a = c # a'" using a(1) by (cases a) simp_all
  then have d: "is_digit c" using a(2) by simp
  have ws: "dropWhile is_ws s = s"
    using d by (simp add: s_def c is_digit_not_ws)
  have sign: "read_sign s = (False, s)"
    using is_digit_not_sign [OF d] by (simp add: s_def c read_sign_def)
  have inf: "take 8 s \<noteq> ''Infinity''"
    using is_digit_not_sign [OF d] by (simp add: s_def c)
  have point: "\<not> is_digit (CHR ''.'')" by (simp add: is_digit_def)
  have ip: "takeWhile is_digit s = a" and r1: "dropWhile is_digit s = CHR ''.'' # b"
    unfolding s_def using a(2) point by (rule takeWhile_stop, rule dropWhile_stop)
  have "parseFloat s
          = round_double (of_int (digits_value a) + of_int (digits_value b) / 10 ^ length b)"
    using a(1)
    by (simp add: parseFloat_def Let_def ws sign inf ip r1 takeWhile_all [OF b]
        dropWhile_all [OF b] read_exponent_def pow10_def)
  then show ?thesis by (simp add: s_def)
qed

lemma trim_id:
  assumes "s \<noteq> []" "\<not> is_ws (hd s)" "\<not> is_ws (last s)"
  shows "trim s = s"
proof -
  have "dropWhile is_ws s = s" using assms(1,2) by (cases s) simp_all
  moreover have "dropWhile is_ws (rev s) = rev s"
    using assms(1,3) by (cases "rev s") (simp_all add: last_rev [symmetric] hd_rev)
  ultimately show ?thesis by (simp add: trim_def)
qed

section \<open>helpers.ts: formatCurrency and parsePriceToNumber\<close>

lemma js_replace_dollar: "js_replace ''$'' '''' (CHR ''$'' # r) = r"
  by simp

text \<open>The digits that \<^verbatim>\<open>toFixed(2)\<close> prints for \<open>n\<close> hundredths.\<close>

lemma toFixed_2_digits:
  fixes n :: nat
  defines "m0 \<equiv> digits_of n"
  defines "m \<equiv> (if length m0 \<le> 2 then replicate (2 + 1 - length m0) (CHR ''0'') @ m0 else m0)"
  defines "a \<equiv> take (length m - 2) m" and "b \<equiv> drop (length m - 2) m"
  shows "a \<noteq> []" "list_all is_digit a" "list_all is_digit b" "length b = 2"
    and "digits_value a * 100 + digits_value b = int n"
proof -
  have len: "3 \<le> length m"
    by (simp add: m_def)
  have digits: "list_all is_digit m"
    using digits_of_digits [of n] by (simp add: m_def m0_def list_all_iff is_digit_zero)
  have val: "digits_value m = int n"
    by (simp add: m_def m0_def digits_value_zeros digits_of_value)
  have ab: "a @ b = m" by (simp add: a_def b_def)
  show "a \<noteq> []" using len by (auto simp: a_def)
  show "list_all is_digit a" and "list_all is_digit b"
    using digits by (auto simp: a_def b_def list_all_iff dest: in_set_takeD in_set_dropD)
  show lb: "length b = 2" using len by (simp add: b_def)
  show "digits_value a * 100 + digits_value b = int n"
    using digits_value_append [of a b] lb by (simp add: ab val)
qed

lemma parsePriceToNumber_formatCurrency_small:
  assumes "0 \<le> x" and "x < 10 ^ 21"
  shows "parsePriceToNumber (formatCurrency toString (Fin x))
           = round_double (of_int \<lfloor>x * 100 + 1 / 2\<rfloor> / 100)"
proof -
  define n where "n = nat \<lfloor>x * 100 + 1 / 2\<rfloor>"
  define m0 where "m0 = digits_of n"
  define m where "m = (if length m0 \<le> 2 then replicate (2 + 1 - length m0) (CHR ''0'') @ m0 else m0)"
  define a where "a = take (length m - 2) m"
  define b where "b = drop (length m - 2) m"
  note ab = toFixed_2_digits [of n, folded m0_def, folded m_def, folded a_def b_def]
  have n: "int n = \<lfloor>x * 100 + 1 / 2\<rfloor>"
    using assms(1) by (simp add: n_def)
  have fixed: "toFixed toString (Fin x) 2 = a @ ''.'' @ b"
    unfolding toFixed_def Let_def a_def b_def m_def m0_def n_def
    using assms by (simp add: abs_of_nonneg)
  have "is_digit (hd a)" and "is_digit (last b)"
  proof -
    have "hd a \<in> set a" using ab(1) by simp
    then show "is_digit (hd a)" using ab(2) by (simp add: list_all_iff)
    have "b \<noteq> []" using ab(4) by auto
    then have "last b \<in> set b" by simp
    then show "is_digit (last b)" using ab(3) by (simp add: list_all_iff)
  qed
  then have "\<not> is_ws (hd (a @ ''.'' @ b))" and "\<not> is_ws (last (a @ ''.'' @ b))"
    using ab(1,4) by (auto simp: is_digit_not_ws)
  then have "trim (a @ ''.'' @ b) = a @ ''.'' @ b"
    by (intro trim_id) simp_all
  then have "parsePriceToNumber (formatCurrency toString (Fin x)) = parseFloat (a @ ''.'' @ b)"
    by (simp add: parsePriceToNumber_def formatCurrency_def fixed)
  also have "\<dots> = round_double (of_int (digits_value a) + of_int (digits_value b) / 10 ^ length b)"
    using ab(1,2,3) by (rule parseFloat_decimal)
  also have "of_int (digits_value a) + of_int (digits_value b) / 10 ^ length b
               = (of_int (int n) :: rat) / 100"
  proof -
    have "(of_int (digits_value a * 100 + digits_value b) :: rat) = of_int (int n)"
      by (simp only: ab(5))
    then have "(of_int (digits_value a) :: rat) * 100 + of_int (digits_value b) = of_int (int n)"
      by simp
    then show ?thesis by (simp add: ab(4) field_simps)
  qed
  finally show ?thesis by (simp only: n)
qed

lemma is_double_significand:
  assumes "is_double q"
  shows "\<exists>m. q = of_int m * pow2 (max (ilog2 \<bar>q\<bar> - 52) (- 1074))"
proof (cases "q = 0")
  case True
  then show ?thesis by (intro exI [of _ 0]) simp
next
  case False
  define p where "p = max (ilog2 \<bar>q\<bar> - 52) (- 1074)"
  define m where "m = round_half_even (\<bar>q\<bar> / pow2 p)"
  have "round_double q = (if pow2 1024 \<le> of_int m * pow2 p then (if q < 0 then NegInf else PosInf)
                          else Fin (if q < 0 then - (of_int m * pow2 p) else of_int m * pow2 p))"
    using False by (simp add: round_double_def Let_def p_def m_def)
  then have "q = (if q < 0 then - (of_int m * pow2 p) else of_int m * pow2 p)"
    using assms by (auto simp: is_double_def split: if_splits)
  then have "q = of_int (if q < 0 then - m else m) * pow2 p"
    by (auto split: if_splits)
  then show ?thesis unfolding p_def by (rule exI)
qed

text \<open>A double from \<open>10\<^sup>2\<^sup>1\<close> on is an integer.\<close>

lemma large_double_is_int:
  assumes "is_double x" and "10 ^ 21 \<le> x"
  shows "\<exists>z. x = of_int z"
proof -
  have pos: "0 < x" using assms(2) by (rule less_le_trans [rotated]) simp
  have "pow2 69 \<le> (10 ^ 21 :: rat)" by (simp add: pow2_def)
  also have "\<dots> \<le> x" by (rule assms(2))
  also have "x < pow2 (ilog2 x + 1)" using ilog2_bounds [OF pos] by simp
  finally have "69 < ilog2 x + 1" by (rule pow2_less_cancel)
  then have p: "0 \<le> max (ilog2 \<bar>x\<bar> - 52) (- 1074)"
    using pos by (simp add: abs_of_pos)
  obtain m where "x = of_int m * pow2 (max (ilog2 \<bar>x\<bar> - 52) (- 1074))"
    using is_double_significand [OF assms(1)] by blast
  then have "x = of_int (m * 2 ^ nat (max (ilog2 \<bar>x\<bar> - 52) (- 1074)))"
    using p by (simp add: pow2_nat)
  then show ?thesis by (rule exI)
qed

lemma round_hundredths_of_int: "of_int \<lfloor>of_int z * 100 + 1 / 2 :: rat\<rfloor> / 100 = (of_int z :: rat)"
proof -
  have "\<lfloor>of_int z * 100 + 1 / 2 :: rat\<rfloor> = z * 100"
    by (rule floor_unique) simp_all
  then show ?thesis by simp
qed

lemma toFixed_large:
  assumes "0 \<le> x" and "10 ^ 21 \<le> x"
  shows "toFixed toString (Fin x) 2 = toString x"
proof -
  have c1: "\<not> x < 0" using assms(1) by simp
  have c2: "10 ^ 21 \<le> \<bar>x\<bar>" using assms by (simp only: abs_of_nonneg)
  show ?thesis
    by (simp only: toFixed_def number.case Let_def c1 c2 if_True if_False append_Nil)
       (simp only: abs_of_nonneg [OF assms(1)])
qed

lemma parsePriceToNumber_formatCurrency_large:
  assumes "0 \<le> x" and "10 ^ 21 \<le> x"
  shows "parsePriceToNumber (formatCurrency toString (Fin x)) = parseFloat (trim (toString x))"
  by (simp only: parsePriceToNumber_def formatCurrency_def toFixed_large [OF assms]
      append_Cons append_Nil js_replace_dollar)

lemma round_hundredths_exact:
  assumes "x * 100 \<in> \<int>"
  shows "of_int \<lfloor>x * 100 + 1 / 2\<rfloor> / 100 = (x :: rat)"
proof -
  obtain z where z: "x * 100 = of_int z" using assms by (rule Ints_cases)
  have "\<lfloor>x * 100 + 1 / 2\<rfloor> = z" unfolding z by (rule floor_unique) simp_all
  then have "of_int \<lfloor>x * 100 + 1 / 2\<rfloor> / 100 = x * 100 / 100" by (simp only: z)
  then show ?thesis by simp
qed

lemma round_half_even_error: "\<bar>of_int (round_half_even q) - q\<bar> \<le> 1 / 2"
proof -
  define f where "f = \<lfloor>q\<rfloor>"
  define r where "r = q - of_int f"
  have r: "0 \<le> r" "r < 1" by (simp_all add: r_def f_def) linarith
  have q: "q = of_int f + r" by (simp add: r_def)
  have "round_half_even q = (if r < 1 / 2 then f else if 1 / 2 < r then f + 1
                                else if even f then f else f + 1)"
    by (simp add: round_half_even_def Let_def f_def r_def)
  then show ?thesis using r by (auto simp: q abs_if)
qed

text \<open>Rounding moves a number by at most half a unit in the last place.\<close>

lemma round_double_error:
  assumes "0 < q" and "round_double q = Fin r"
  shows "\<bar>r - q\<bar> \<le> pow2 (max (ilog2 q - 52) (- 1074)) / 2"
proof -
  define p where "p = max (ilog2 q - 52) (- 1074)"
  define m where "m = round_half_even (q / pow2 p)"
  have "round_double q = (if pow2 1024 \<le> of_int m * pow2 p then PosInf else Fin (of_int m * pow2 p))"
    using assms(1) by (simp add: round_double_def Let_def p_def m_def abs_of_pos)
  then have r: "r = of_int m * pow2 p"
    using assms(2) by (auto split: if_splits)
  have "\<bar>of_int m - q / pow2 p\<bar> \<le> 1 / 2"
    unfolding m_def by (rule round_half_even_error)
  then have "\<bar>of_int m - q / pow2 p\<bar> * pow2 p \<le> 1 / 2 * pow2 p"
    by (rule mult_right_mono) (simp add: less_imp_le)
  also have "\<bar>of_int m - q / pow2 p\<bar> * pow2 p = \<bar>r - q\<bar>"
  proof -
    have "\<bar>of_int m - q / pow2 p\<bar> * pow2 p = \<bar>(of_int m - q / pow2 p) * pow2 p\<bar>"
      by (simp add: abs_mult)
    also have "(of_int m - q / pow2 p) * pow2 p = r - q"
      by (simp add: r left_diff_distrib)
    finally show ?thesis .
  qed
  finally show ?thesis by (simp add: p_def)
qed

lemma hundredths_nearest_double:
  assumes k: "0 \<le> k" and small: "of_int k / 100 < pow2 45"
    and x: "round_double (of_int k / 100) = Fin x"
  shows "\<lfloor>x * 100 + 1 / 2\<rfloor> = k"
proof (cases "k = 0")
  case True
  then have "x = 0" using x by simp
  moreover have "\<lfloor>1 / 2 :: rat\<rfloor> = 0" by (rule floor_unique) simp_all
  ultimately show ?thesis using True by simp
next
  case False
  define q :: rat where "q = of_int k / 100"
  have q: "0 < q" using k False by (simp add: q_def)
  have "ilog2 q < 45" using q small unfolding q_def [symmetric] by (rule ilog2_less)
  then have "max (ilog2 q - 52) (- 1074) \<le> - 8" by simp
  then have "pow2 (max (ilog2 q - 52) (- 1074)) \<le> pow2 (- 8)" by (rule pow2_mono)
  moreover have "\<bar>x - q\<bar> \<le> pow2 (max (ilog2 q - 52) (- 1074)) / 2"
    using q x unfolding q_def [symmetric] by (rule round_double_error)
  ultimately have "\<bar>x - q\<bar> \<le> pow2 (- 8) / 2" by simp
  then have "\<bar>x - q\<bar> \<le> 1 / 512" by (simp add: pow2_def)
  then have near: "x - q \<le> 1 / 512" "q - x \<le> 1 / 512"
    by linarith+
  have "q * 100 = of_int k" by (simp add: q_def)
  then show ?thesis using near
    by (intro floor_unique) linarith+
qed

text \<open>
  Claim C9. Let \<open>x\<close> be a finite double that is not negative, and let the number-to-string
  conversion that \<^verbatim>\<open>toFixed\<close> falls back on from \<open>10\<^sup>2\<^sup>1\<close> on be read back by \<^verbatim>\<open>parseFloat\<close>
  as the same number. Then \<^verbatim>\<open>parsePriceToNumber(formatCurrency(x))\<close> is \<open>x\<close> rounded to two
  decimal places: the double nearest to \<open>n / 100\<close>, where \<open>n\<close> is the integer nearest to
  \<open>100 x\<close> (the larger one of two). In particular it is \<open>x\<close> itself when \<open>x\<close> has at most two
  decimal places: when \<open>100 x\<close> is an integer, and also when \<open>x\<close> is the double that a
  numeral \<open>k / 100\<close> below \<open>2\<^sup>4\<^sup>5\<close> denotes.
\<close>

theorem currency_round_trip:
  assumes "is_double x" and "0 \<le> x"
    and "10 ^ 21 \<le> x \<Longrightarrow> parseFloat (trim (toString x)) = Fin x"
  shows "parsePriceToNumber (formatCurrency toString (Fin x))
           = round_double (of_int \<lfloor>x * 100 + 1 / 2\<rfloor> / 100) \<and>
         (x * 100 \<in> \<int> \<longrightarrow> parsePriceToNumber (formatCurrency toString (Fin x)) = Fin x) \<and>
         (0 \<le> k \<and> (of_int k :: rat) / 100 < 2 ^ 45 \<and> round_double (of_int k / 100) = Fin x
            \<longrightarrow> parsePriceToNumber (formatCurrency toString (Fin x)) = Fin x)"
proof -
  have rounded: "parsePriceToNumber (formatCurrency toString (Fin x))
           = round_double (of_int \<lfloor>x * 100 + 1 / 2\<rfloor> / 100)"
  proof (cases "x < 10 ^ 21")
    case True
    with assms(2) show ?thesis by (rule parsePriceToNumber_formatCurrency_small)
  next
    case False
    then have big: "10 ^ 21 \<le> x" by (simp only: not_less)
    have "parsePriceToNumber (formatCurrency toString (Fin x)) = Fin x"
      by (simp only: parsePriceToNumber_formatCurrency_large [OF assms(2) big] assms(3) [OF big])
    moreover obtain z where "x = of_int z"
      using large_double_is_int [OF assms(1) big] by blast
    then have "of_int \<lfloor>x * 100 + 1 / 2\<rfloor> / 100 = x"
      by (simp only: round_hundredths_of_int)
    moreover have "round_double x = Fin x"
      using assms(1) by (simp only: is_double_def)
    ultimately show ?thesis by (simp only:)
  qed
  have exact: "parsePriceToNumber (formatCurrency toString (Fin x)) = Fin x" if "x * 100 \<in> \<int>"
  proof -
    have "round_double x = Fin x"
      using assms(1) by (simp only: is_double_def)
    then show ?thesis
      by (simp only: rounded round_hundredths_exact [OF that])
  qed
  have nearest: "parsePriceToNumber (formatCurrency toString (Fin x)) = Fin x"
    if "0 \<le> k \<and> (of_int k :: rat) / 100 < 2 ^ 45 \<and> round_double (of_int k / 100) = Fin x"
  proof -
    have "(of_int k :: rat) / 100 < pow2 45" using that by (simp add: pow2_def)
    then have "\<lfloor>x * 100 + 1 / 2\<rfloor> = k"
      using that by (intro hundredths_nearest_double) simp_all
    then show ?thesis using that by (simp only: rounded)
  qed
  from rounded exact nearest show ?thesis by blast
qed

text \<open>
  The theorem at \<open>12.5\<close>, at the double nearest to \<open>29.99\<close>, which is the price of the
  backpack, and at \<open>10\<^sup>2\<^sup>1\<close>, which \<^verbatim>\<open>toFixed\<close> prints as \<^verbatim>\<open>1e+21\<close>.
\<close>

lemma is_double_25_2: "is_double (25 / 2)"
  using round_double_exact [of 25 "- 1"] by (simp add: is_double_def pow2_def)

lemma is_double_29_99: "is_double (8441434551552573 / 281474976710656)"
  using round_double_exact [of 8441434551552573 "- 48"] by (simp add: is_double_def pow2_def)

lemma is_double_1e21: "is_double (10 ^ 21)"
  using round_double_exact [of "5 ^ 21" 21] by (simp add: is_double_def pow2_def)

lemma parseFloat_1e21: "parseFloat ''1e+21'' = Fin (10 ^ 21)"
  using is_double_1e21 by (simp add: parseFloat_def eval_string is_double_def)

lemma round_double_29_99: "round_double (2999 / 100) = Fin (8441434551552573 / 281474976710656)"
  using round_double_eval [of 4 "2999 / 100" 8441434551552573] by (simp add: pow2_def)

theorem currency_round_trip_witness:
  "parsePriceToNumber (formatCurrency (\<lambda>q. ''1e+21'') (Fin (25 / 2))) = Fin (25 / 2) \<and>
   parsePriceToNumber (formatCurrency (\<lambda>q. ''1e+21'') (Fin (8441434551552573 / 281474976710656)))
     = Fin (8441434551552573 / 281474976710656) \<and>
   parsePriceToNumber (formatCurrency (\<lambda>q. ''1e+21'') (Fin (10 ^ 21))) = Fin (10 ^ 21)"
proof -
  let ?toString = "\<lambda>q :: rat. ''1e+21''"
  let ?x = "8441434551552573 / 281474976710656 :: rat"
  have "parsePriceToNumber (formatCurrency ?toString (Fin ?x))
          = round_double (of_int \<lfloor>?x * 100 + 1 / 2\<rfloor> / 100) \<and>
        (?x * 100 \<in> \<int> \<longrightarrow> parsePriceToNumber (formatCurrency ?toString (Fin ?x)) = Fin ?x) \<and>
        (0 \<le> (2999::int) \<and> (of_int 2999 :: rat) / 100 < 2 ^ 45 \<and> round_double (of_int 2999 / 100) = Fin ?x
           \<longrightarrow> parsePriceToNumber (formatCurrency ?toString (Fin ?x)) = Fin ?x)"
    by (rule currency_round_trip) (simp_all add: is_double_29_99)
  moreover have "(0::int) \<le> 2999 \<and> (of_int 2999 :: rat) / 100 < 2 ^ 45 \<and>
                 round_double (of_int 2999 / 100) = Fin ?x"
    using round_double_29_99 by simp
  ultimately have a: "parsePriceToNumber (formatCurrency ?toString (Fin ?x)) = Fin ?x"
    by blast
  have "parsePriceToNumber (formatCurrency ?toString (Fin (25 / 2)))
          = round_double (of_int \<lfloor>(25 / 2 :: rat) * 100 + 1 / 2\<rfloor> / 100) \<and>
        ((25 / 2 :: rat) * 100 \<in> \<int>
           \<longrightarrow> parsePriceToNumber (formatCurrency ?toString (Fin (25 / 2))) = Fin (25 / 2)) \<and>
        (0 \<le> (1250::int) \<and> (of_int 1250 :: rat) / 100 < 2 ^ 45 \<and> round_double (of_int 1250 / 100) = Fin (25 / 2)
           \<longrightarrow> parsePriceToNumber (formatCurrency ?toString (Fin (25 / 2))) = Fin (25 / 2))"
    by (rule currency_round_trip) (simp_all add: is_double_25_2)
  moreover have "(25 / 2 :: rat) * 100 \<in> \<int>" by simp
  ultimately have b: "parsePriceToNumber (formatCurrency ?toString (Fin (25 / 2))) = Fin (25 / 2)"
    by blast
  have "parseFloat (trim (?toString (10 ^ 21))) = Fin (10 ^ 21)"
    using parseFloat_1e21 by (simp add: eval_string)
  then have "parsePriceToNumber (formatCurrency ?toString (Fin (10 ^ 21)))
          = round_double (of_int \<lfloor>(10 ^ 21 :: rat) * 100 + 1 / 2\<rfloor> / 100) \<and>
        ((10 ^ 21 :: rat) * 100 \<in> \<int>
           \<longrightarrow> parsePriceToNumber (formatCurrency ?toString (Fin (10 ^ 21))) = Fin (10 ^ 21)) \<and>
        (0 \<le> (0::int) \<and> (of_int 0 :: rat) / 100 < 2 ^ 45 \<and> round_double (of_int 0 / 100) = Fin (10 ^ 21)
           \<longrightarrow> parsePriceToNumber (formatCurrency ?toString (Fin (10 ^ 21))) = Fin (10 ^ 21))"
    by (intro currency_round_trip is_double_1e21) simp_all
  moreover have "(10 ^ 21 :: rat) * 100 \<in> \<int>" by simp
  ultimately have c: "parsePriceToNumber (formatCurrency ?toString (Fin (10 ^ 21))) = Fin (10 ^ 21)"
    by blast
  show ?thesis
    using a b c by (intro conjI)
qed

section \<open>CheckoutStepTwoPage: verifyTotalCalculation\<close>

lemma getAmountAsNumber_eq:
  "getItemTotalAsNumber E s =
     (case locator_textContent E (Page_locator CheckoutStepTwoPage_itemTotal) s of
        Inl e \<Rightarrow> Inl e | Inr text \<Rightarrow> Inr (amount_as_read ''Item total: '' text))"
  "getTaxAsNumber E s =
     (case locator_textContent E (Page_locator CheckoutStepTwoPage_tax) s of
        Inl e \<Rightarrow> Inl e | Inr text \<Rightarrow> Inr (amount_as_read ''Tax: '' text))"
  "getTotalAsNumber E s =
     (case locator_textContent E (Page_locator CheckoutStepTwoPage_total) s of
        Inl e \<Rightarrow> Inl e | Inr text \<Rightarrow> Inr (amount_as_read ''Total: '' text))"
  by (simp_all add: getItemTotalAsNumber_def getItemTotal_def getTaxAsNumber_def getTax_def
      getTotalAsNumber_def getTotal_def getText_def amount_as_read_def split: sum.splits)

lemma js_replace_prefix: "label \<noteq> [] \<Longrightarrow> js_replace label [] (label @ r) = r"
  by (cases label) simp_all

lemma strip_prefix_prefix: "strip_prefix label (label @ r) = r"
  by (simp add: strip_prefix_def)

text \<open>
  A summary line of the form label, dollar sign, digits, point, digits: both descriptions
  of its number give the decimal value displayed, rounded to a double.
\<close>

lemma amount_of_display:
  assumes label: "label \<noteq> []" "\<not> is_ws (hd label)"
    and a: "a \<noteq> []" "list_all is_digit a" and b: "b \<noteq> []" "list_all is_digit b"
  shows "amount_as_read label (Some (label @ ''$'' @ a @ ''.'' @ b))
           = round_double (of_int (digits_value a) + of_int (digits_value b) / 10 ^ length b)"
    and "amount_as_stated label (Some (label @ ''$'' @ a @ ''.'' @ b))
           = round_double (of_int (digits_value a) + of_int (digits_value b) / 10 ^ length b)"
proof -
  define r where "r = ''$'' @ a @ ''.'' @ b"
  have "last b \<in> set b" using b(1) by simp
  then have lb: "\<not> is_ws (last b)" using b(2) by (simp add: list_all_iff is_digit_not_ws)
  have t1: "trim (label @ r) = label @ r"
    using label lb b(1) by (intro trim_id) (simp_all add: r_def)
  have t2: "trim r = r"
    using lb b(1) by (intro trim_id) (simp_all add: r_def is_ws_def)
  have d: "js_replace ''$'' '''' r = a @ ''.'' @ b" "strip_prefix ''$'' r = a @ ''.'' @ b"
    by (simp_all add: r_def strip_prefix_def)
  have p: "parseFloat (a @ ''.'' @ b)
           = round_double (of_int (digits_value a) + of_int (digits_value b) / 10 ^ length b)"
    using a b(2) by (rule parseFloat_decimal)
  show "amount_as_read label (Some (label @ ''$'' @ a @ ''.'' @ b))
           = round_double (of_int (digits_value a) + of_int (digits_value b) / 10 ^ length b)"
    unfolding amount_as_read_def trim_or_empty_def option.case r_def [symmetric]
    by (simp only: t1 js_replace_prefix [OF label(1)] t2 d p)
  show "amount_as_stated label (Some (label @ ''$'' @ a @ ''.'' @ b))
           = round_double (of_int (digits_value a) + of_int (digits_value b) / 10 ^ length b)"
    unfolding amount_as_stated_def trim_or_empty_def option.case r_def [symmetric]
    by (simp only: t1 strip_prefix_prefix d p)
qed

text \<open>
  Claim C1, amended. In a page state whose three summary texts are read,
  \<^verbatim>\<open>verifyTotalCalculation\<close> returns true if and only if the absolute difference of the
  total and the sum of subtotal and tax, computed on doubles, is below the double
  \<^verbatim>\<open>0.01\<close>; each of the three numbers is obtained from the trimmed text of its element by
  deleting the first occurrence of the label (\<^verbatim>\<open>Item total: \<close>, \<^verbatim>\<open>Tax: \<close>, \<^verbatim>\<open>Total: \<close>),
  trimming, deleting the first dollar sign, and reading the longest numeral at the head
  of the rest with \<^verbatim>\<open>parseFloat\<close>, which gives NaN when there is none.
\<close>

theorem verifyTotalCalculation_contract:
  assumes "locator_textContent E (Page_locator CheckoutStepTwoPage_itemTotal) s = Inr itemTotalText"
    and "locator_textContent E (Page_locator CheckoutStepTwoPage_tax) s = Inr taxText"
    and "locator_textContent E (Page_locator CheckoutStepTwoPage_total) s = Inr totalText"
  shows "verifyTotalCalculation E s
           = Inr (total_within_tolerance (amount_as_read ''Item total: '' itemTotalText)
                    (amount_as_read ''Tax: '' taxText) (amount_as_read ''Total: '' totalText))"
  using assms
  by (simp add: verifyTotalCalculation_def getAmountAsNumber_eq total_within_tolerance_def)


lemma js_add_NaN [simp]: "js_add x NaN = NaN"
  by (cases x) simp_all

lemma round_double_0_01: "round_double (1 / 100) = Fin (5764607523034235 / 576460752303423488)"
  using round_double_eval [of "- 7" "1 / 100" 5764607523034235] by (simp add: pow2_def)

lemma summary_engine_texts:
  "locator_textContent (summary_engine a b c) (Page_locator CheckoutStepTwoPage_itemTotal) s = Inr (Some a)"
  "locator_textContent (summary_engine a b c) (Page_locator CheckoutStepTwoPage_tax) s = Inr (Some b)"
  "locator_textContent (summary_engine a b c) (Page_locator CheckoutStepTwoPage_total) s = Inr (Some c)"
  by (simp_all add: summary_engine_def scripted_engine_def CheckoutStepTwoPage_itemTotal_def
      CheckoutStepTwoPage_tax_def CheckoutStepTwoPage_total_def)

lemma verifyTotalCalculation_summary:
  "verifyTotalCalculation (summary_engine a b c) s
     = Inr (total_within_tolerance (amount_as_read ''Item total: '' (Some a))
              (amount_as_read ''Tax: '' (Some b)) (amount_as_read ''Total: '' (Some c)))"
  by (simp add: verifyTotalCalculation_def getAmountAsNumber_eq total_within_tolerance_def
      summary_engine_texts)

text \<open>
  Claim C1, as stated, on a summary that shows a negative amount as \<^verbatim>\<open>-$5.00\<close>. The page
  object deletes the dollar sign although it is not the first character, reads \<open>-5\<close> for
  subtotal and total, and returns true. Read as the claim describes them, with only a
  leading dollar sign stripped, subtotal and total are no numbers, and the difference is
  not within the tolerance.
\<close>

theorem verifyTotalCalculation_counterexample:
  "verifyTotalCalculation
     (summary_engine ''Item total: -$5.00'' ''Tax: $0.00'' ''Total: -$5.00'') [] = Inr True \<and>
   \<not> total_within_tolerance
       (amount_as_stated ''Item total: '' (Some ''Item total: -$5.00''))
       (amount_as_stated ''Tax: '' (Some ''Tax: $0.00''))
       (amount_as_stated ''Total: '' (Some ''Total: -$5.00''))"
proof -
  have read: "amount_as_read ''Item total: '' (Some ''Item total: -$5.00'') = Fin (- 5)"
    "amount_as_read ''Tax: '' (Some ''Tax: $0.00'') = Fin 0"
    "amount_as_read ''Total: '' (Some ''Total: -$5.00'') = Fin (- 5)"
    by (simp_all add: amount_as_read_def parseFloat_def eval_string round_double_neg_numeral)
  have stated: "amount_as_stated ''Item total: '' (Some ''Item total: -$5.00'') = NaN"
    by (simp add: amount_as_stated_def strip_prefix_def parseFloat_def eval_string)
  show ?thesis
    by (simp add: verifyTotalCalculation_summary total_within_tolerance_def read stated
        js_sub_def round_double_0_01 round_double_neg_numeral)
qed


text \<open>
  The contract on the summary of an order of one backpack: \<^verbatim>\<open>$29.99\<close> and \<^verbatim>\<open>$2.40\<close> of
  tax make \<^verbatim>\<open>$32.39\<close>. The sum of the two doubles rounds to the double of the total.
\<close>

lemma round_double_2_40: "round_double (12 / 5) = Fin (5404319552844595 / 2251799813685248)"
  using round_double_eval [of 1 "12 / 5" 5404319552844595] by (simp add: pow2_def)

lemma round_double_32_39: "round_double (3239 / 100) = Fin (2279243623914537 / 70368744177664)"
  using round_double_eval [of 5 "3239 / 100" 4558487247829074] by (simp add: pow2_def)

lemma round_double_32_40: "round_double (162 / 5) = Fin (4559894622712627 / 140737488355328)"
  using round_double_eval [of 5 "162 / 5" 4559894622712627] by (simp add: pow2_def)

lemma round_double_sum:
  "round_double (72935795965265179 / 2251799813685248) = Fin (2279243623914537 / 70368744177664)"
  using round_double_eval [of 5 "72935795965265179 / 2251799813685248" 4558487247829074]
  by (simp add: pow2_def)

lemma round_double_cent:
  "round_double (1407374883553 / 140737488355328) = Fin (1407374883553 / 140737488355328)"
  using round_double_exact [of 1407374883553 "- 47"] by (simp add: pow2_def)

lemma round_double_0_01_again:
  "round_double (5764607523034235 / 576460752303423488) = Fin (5764607523034235 / 576460752303423488)"
  using round_double_exact [of 5764607523034235 "- 59"] by (simp add: pow2_def)

lemma amounts_of_backpack_order:
  "amount_as_read ''Item total: '' (Some ''Item total: $29.99'') = Fin (8441434551552573 / 281474976710656)"
  "amount_as_read ''Tax: '' (Some ''Tax: $2.40'') = Fin (5404319552844595 / 2251799813685248)"
  "amount_as_read ''Total: '' (Some ''Total: $32.39'') = Fin (2279243623914537 / 70368744177664)"
  "amount_as_read ''Total: '' (Some ''Total: $32.40'') = Fin (4559894622712627 / 140737488355328)"
  by (simp_all add: amount_as_read_def parseFloat_def eval_string round_double_29_99
      round_double_2_40 round_double_32_39 round_double_32_40)

theorem verifyTotalCalculation_witness:
  "verifyTotalCalculation
     (summary_engine ''Item total: $29.99'' ''Tax: $2.40'' ''Total: $32.39'') [] = Inr True"
  using verifyTotalCalculation_contract
          [OF summary_engine_texts(1) summary_engine_texts(2) summary_engine_texts(3),
           of "''Item total: $29.99''" "''Tax: $2.40''" "''Total: $32.39''" "[]"]
  by (simp add: total_within_tolerance_def amounts_of_backpack_order js_sub_def
      round_double_sum round_double_0_01)

text \<open>
  The tolerance is applied to doubles. A total that is one cent too high is accepted:
  the difference of the doubles of \<^verbatim>\<open>32.40\<close> and \<^verbatim>\<open>32.39\<close> is below the double of
  \<^verbatim>\<open>0.01\<close>. A total of one cent over a subtotal and a tax of zero is rejected: there the
  difference is the double of \<^verbatim>\<open>0.01\<close> itself, which is not below itself.
\<close>

lemma verifyTotalCalculation_accepts_one_cent_more:
  "verifyTotalCalculation
     (summary_engine ''Item total: $29.99'' ''Tax: $2.40'' ''Total: $32.40'') [] = Inr True"
  by (simp add: verifyTotalCalculation_summary total_within_tolerance_def
      amounts_of_backpack_order js_sub_def round_double_sum round_double_0_01 round_double_cent)

lemma verifyTotalCalculation_rejects_one_cent:
  "verifyTotalCalculation
     (summary_engine ''Item total: $0.00'' ''Tax: $0.00'' ''Total: $0.01'') [] = Inr False"
proof -
  have "amount_as_read ''Item total: '' (Some ''Item total: $0.00'') = Fin 0"
    "amount_as_read ''Tax: '' (Some ''Tax: $0.00'') = Fin 0"
    "amount_as_read ''Total: '' (Some ''Total: $0.01'') = Fin (5764607523034235 / 576460752303423488)"
    by (simp_all add: amount_as_read_def parseFloat_def eval_string round_double_0_01)
  then show ?thesis
    by (simp add: verifyTotalCalculation_summary total_within_tolerance_def js_sub_def
        round_double_0_01 round_double_0_01_again)
qed

end
